theory Spec2Isabelle
  imports Main "HOL-Library.Word"
begin

section \<open>The task queue of the local HAL backend (iree/hal/local/task\_queue.c)\<close>

text \<open>
  The queue lowers every submission batch to a small graph of tasks: an optional wait
  task, an issue task and a retire task. Everything the file calls outside itself (the
  arena, the semaphores, the command buffers, the executor) is an external call: the
  model appends it to a log of calls, and a fallible call takes its status from an
  environment that may look at the calls made so far. The records the file writes
  itself (the three commands and the queue's \<open>tail_issue_task\<close>) are modelled as data.
\<close>

subsection \<open>Handles, statuses and semaphore lists\<close>

type_synonym semaphore = nat
type_synonym command_buffer = nat
type_synonym task_ref = nat
type_synonym arena_ref = nat

text \<open>
  \<open>iree_status_t\<close>: ok, or an error with its status code. A status is a value of
  \<open>error + unit\<close>, and a call that also hands out a pointer returns \<open>error + pointer\<close>.
\<close>

datatype error = Error nat

type_synonym iree_status = "error + unit"

abbreviation iree_ok_status :: iree_status where
  "iree_ok_status \<equiv> Inr ()"

fun iree_status_is_ok :: "iree_status \<Rightarrow> bool" where
  "iree_status_is_ok (Inr _) = True"
| "iree_status_is_ok (Inl _) = False"

text \<open>
  \<open>iree_status_clone\<close> copies a status; a status is a value here, so the clone is the
  status itself.
\<close>

definition iree_status_clone :: "iree_status \<Rightarrow> iree_status" where
  "iree_status_clone status = status"

text \<open>
  \<open>iree_hal_semaphore_list_t\<close>: a count and two parallel arrays. The C code reads
  entries \<open>0 .. count - 1\<close> of both arrays; a list is well formed when both arrays
  hold at least \<open>count\<close> entries (anything else reads out of bounds in C).
\<close>

record semaphore_list =
  count :: nat
  semaphores :: "semaphore list"
  payload_values :: "64 word list"

definition semaphore_list_ok :: "semaphore_list \<Rightarrow> bool" where
  "semaphore_list_ok l = (count l \<le> length (semaphores l) \<and> count l \<le> length (payload_values l))"

text \<open>
  Allocation sizes are kept symbolic: \<open>sizeof\<close> of the three command structs depends
  on the platform and on headers outside this file. \<open>Sizeof_semaphore_list n\<close> is
  \<open>n * sizeof(semaphores[0]) + n * sizeof(payload_values[0])\<close>, \<open>Sizeof_issue_cmd n\<close> is
  \<open>sizeof(*cmd) + n * sizeof(*cmd->command_buffers)\<close>.
\<close>

datatype alloc_size =
    Sizeof_semaphore_list nat
  | Sizeof_wait_cmd
  | Sizeof_issue_cmd nat
  | Sizeof_retire_cmd

subsection \<open>External calls\<close>

text \<open>
  One constructor per function the file calls in other modules, with the arguments
  that identify the call. The \<open>pending_submission\<close> and \<open>&queue->state\<close> arguments
  are the same in every call of a task and are left out. The executor's submission
  holds the tasks enqueued into it.
\<close>

datatype call =
    Arena_initialize arena_ref
  | Arena_allocate arena_ref alloc_size
  | Arena_deinitialize arena_ref
  | Semaphore_retain semaphore
  | Semaphore_release semaphore
  | Semaphore_signal semaphore "64 word"
  | Semaphore_fail semaphore iree_status
  | Semaphore_enqueue_timepoint semaphore "64 word" "task_ref option" arena_ref
  | Command_buffer_issue command_buffer "task_ref option" arena_ref
  | Executor_acquire_fence
  | Executor_submit "task_ref list"
  | Executor_flush

text \<open>
  The environment answers a fallible call with a status; it sees the calls made before.
\<close>

type_synonym env = "call list \<Rightarrow> call \<Rightarrow> iree_status"

subsection \<open>Tasks and commands\<close>

datatype task_fn = Wait_cmd_fn | Issue_cmd_fn | Retire_cmd_fn

datatype cleanup_fn = Wait_cmd_cleanup_fn | Issue_cmd_cleanup_fn | Retire_cmd_cleanup_fn

text \<open>
  The task header, as far as this file uses it: the closure of a call task, the
  completion task (\<open>task.header.completion_task\<close>) and the cleanup function.
\<close>

record iree_task =
  closure_fn :: "task_fn option"
  completion_task :: "task_ref option"
  cleanup_fn :: "cleanup_fn option"

record wait_cmd =
  wait_task :: iree_task
  wait_arena :: arena_ref
  wait_semaphores :: semaphore_list

record issue_cmd =
  issue_task :: iree_task
  issue_arena :: arena_ref
  command_buffer_count :: nat
  command_buffers :: "command_buffer list"

record retire_cmd =
  retire_task :: iree_task
  retire_arena :: arena_ref
  signal_semaphores :: semaphore_list

datatype obj =
    Wait_obj wait_cmd
  | Issue_obj issue_cmd
  | Retire_obj retire_cmd
  | Fence_obj iree_task

fun header_of :: "obj \<Rightarrow> iree_task" where
  "header_of (Wait_obj c) = wait_task c"
| "header_of (Issue_obj c) = issue_task c"
| "header_of (Retire_obj c) = retire_task c"
| "header_of (Fence_obj t) = t"

fun set_header :: "iree_task \<Rightarrow> obj \<Rightarrow> obj" where
  "set_header h (Wait_obj c) = Wait_obj (c\<lparr>wait_task := h\<rparr>)"
| "set_header h (Issue_obj c) = Issue_obj (c\<lparr>issue_task := h\<rparr>)"
| "set_header h (Retire_obj c) = Retire_obj (c\<lparr>retire_task := h\<rparr>)"
| "set_header h (Fence_obj t) = Fence_obj h"

text \<open>
  \<open>iree_hal_submission_batch_t\<close>, the caller's batch.
\<close>

record batch =
  batch_wait_semaphores :: semaphore_list
  batch_signal_semaphores :: semaphore_list
  batch_command_buffer_count :: nat
  batch_command_buffers :: "command_buffer list"

subsection \<open>The world: the log of external calls, the task records, the queue\<close>

text \<open>
  \<open>heap\<close> holds the task records by address; addresses are handed out in increasing
  order and never reused, so a record stays readable in the model after its arena is
  deinitialized (the log shows the deinitialization). The model holds one queue:
  \<open>tail_issue_task\<close> is \<open>queue->tail_issue_task\<close>, and \<open>cmd->queue\<close> of every issue
  command is that queue. The model runs one call at a time, so the queue's mutex has
  no effect and is left out.
\<close>

record world =
  calls :: "call list"
  heap :: "task_ref \<rightharpoonup> obj"
  next_ref :: task_ref
  tail_issue_task :: "task_ref option"

definition ext_call :: "env \<Rightarrow> call \<Rightarrow> world \<Rightarrow> iree_status \<times> world" where
  "ext_call env c w = (env (calls w) c, w\<lparr>calls := calls w @ [c]\<rparr>)"

definition ext_void :: "call \<Rightarrow> world \<Rightarrow> world" where
  "ext_void c w = w\<lparr>calls := calls w @ [c]\<rparr>"

text \<open>
  Modelled from the spec: the arena (iree/base/arena.h is not among the sources) is "a
  bump allocator backed by fixed-size blocks; freed wholesale". \<open>iree_arena_allocate\<close>
  takes an arena and a size and hands out raw memory or fails; the arena is never told
  what is stored in that memory, so deinitializing it frees memory and does nothing else
  (cleanup functions are set on task headers and are the executor's to call; the retire
  cleanup releases its semaphores itself before it deinitializes the arena). An arena is
  named by the address of the first record allocated from it: for a submission that is
  the retire command, which embeds the arena (\<open>cmd->arena\<close>).
\<close>

definition iree_arena_initialize :: "world \<Rightarrow> arena_ref \<times> world" where
  "iree_arena_initialize w = (next_ref w, ext_void (Arena_initialize (next_ref w)) w)"

definition iree_arena_allocate :: "env \<Rightarrow> arena_ref \<Rightarrow> alloc_size \<Rightarrow> world \<Rightarrow> (error + task_ref) \<times> world" where
  "iree_arena_allocate env arena sz w =
     (case ext_call env (Arena_allocate arena sz) w of
        (Inl e, w1) \<Rightarrow> (Inl e, w1)
      | (Inr _, w1) \<Rightarrow> (Inr (next_ref w1), w1\<lparr>next_ref := Suc (next_ref w1)\<rparr>))"

definition iree_arena_deinitialize :: "arena_ref \<Rightarrow> world \<Rightarrow> world" where
  "iree_arena_deinitialize arena w = ext_void (Arena_deinitialize arena) w"

definition iree_hal_semaphore_retain :: "semaphore \<Rightarrow> world \<Rightarrow> world" where
  "iree_hal_semaphore_retain s w = ext_void (Semaphore_retain s) w"

definition iree_hal_semaphore_release :: "semaphore \<Rightarrow> world \<Rightarrow> world" where
  "iree_hal_semaphore_release s w = ext_void (Semaphore_release s) w"

text \<open>
  Modelled from the spec: \<open>retain\<close> and \<open>release\<close> count references. The reference
  count of a semaphore changes by the retains and releases in the log.
\<close>

definition retain_count :: "call list \<Rightarrow> semaphore \<Rightarrow> nat" where
  "retain_count cs s = count_list cs (Semaphore_retain s)"

definition release_count :: "call list \<Rightarrow> semaphore \<Rightarrow> nat" where
  "release_count cs s = count_list cs (Semaphore_release s)"

subsection \<open>Utilities: cloning and releasing a semaphore list\<close>

text \<open>
  The loop of \<open>iree_hal_semaphore_list_clone\<close>, from index \<open>i\<close>: copy the handle,
  retain it, copy the payload value.
\<close>

function iree_hal_semaphore_list_clone_loop ::
  "semaphore_list \<Rightarrow> nat \<Rightarrow> semaphore_list \<Rightarrow> world \<Rightarrow> semaphore_list \<times> world" where
  "iree_hal_semaphore_list_clone_loop source_list i target w =
     (if i < count source_list then
        (let target1 = target\<lparr>semaphores := (semaphores target)[i := semaphores source_list ! i]\<rparr>;
             w1 = iree_hal_semaphore_retain (semaphores target1 ! i) w;
             target2 = target1\<lparr>payload_values := (payload_values target1)[i := payload_values source_list ! i]\<rparr>
         in iree_hal_semaphore_list_clone_loop source_list (Suc i) target2 w1)
      else (target, w))"
  by pat_completeness auto
termination
  by (relation "measure (\<lambda>(source_list, i, target, w). count source_list - i)") auto

declare iree_hal_semaphore_list_clone_loop.simps [simp del]

text \<open>
  The buffer is one arena allocation holding both arrays; its content before the loop
  is arbitrary and every slot is written by the loop (zeros stand for it here).
\<close>

definition iree_hal_semaphore_list_clone ::
  "env \<Rightarrow> semaphore_list \<Rightarrow> arena_ref \<Rightarrow> world \<Rightarrow> (error + semaphore_list) \<times> world" where
  "iree_hal_semaphore_list_clone env source_list arena w =
     (case iree_arena_allocate env arena (Sizeof_semaphore_list (count source_list)) w of
        (Inl e, w1) \<Rightarrow> (Inl e, w1)
      | (Inr buffer, w1) \<Rightarrow>
          (case iree_hal_semaphore_list_clone_loop source_list 0
                  \<lparr>count = count source_list,
                   semaphores = replicate (count source_list) 0,
                   payload_values = replicate (count source_list) 0\<rparr> w1 of
             (target, w2) \<Rightarrow> (Inr target, w2)))"

function iree_hal_semaphore_list_release_loop :: "semaphore_list \<Rightarrow> nat \<Rightarrow> world \<Rightarrow> world" where
  "iree_hal_semaphore_list_release_loop list i w =
     (if i < count list then
        iree_hal_semaphore_list_release_loop list (Suc i)
          (iree_hal_semaphore_release (semaphores list ! i) w)
      else w)"
  by pat_completeness auto
termination
  by (relation "measure (\<lambda>(list, i, w). count list - i)") auto

declare iree_hal_semaphore_list_release_loop.simps [simp del]

definition iree_hal_semaphore_list_release :: "semaphore_list \<Rightarrow> world \<Rightarrow> world" where
  "iree_hal_semaphore_list_release list w = iree_hal_semaphore_list_release_loop list 0 w"

subsection \<open>Task primitives and the executor's calls\<close>

text \<open>
  Modelled from the spec: the task primitives of iree/task/task.h, which is not among
  the sources ("initialize a call task with a closure; set completion edge; set cleanup
  callback"). A call task starts with no completion task and no cleanup function; the
  completion task is the one field \<open>header.completion_task\<close> that the run functions
  below read back, and it may be null.
\<close>

definition iree_task_call_initialize :: "task_fn \<Rightarrow> iree_task" where
  "iree_task_call_initialize fn = \<lparr>closure_fn = Some fn, completion_task = None, cleanup_fn = None\<rparr>"

definition iree_task_set_completion_task :: "task_ref option \<Rightarrow> iree_task \<Rightarrow> iree_task" where
  "iree_task_set_completion_task completion t = t\<lparr>completion_task := completion\<rparr>"

definition iree_task_set_cleanup_fn :: "cleanup_fn \<Rightarrow> iree_task \<Rightarrow> iree_task" where
  "iree_task_set_cleanup_fn fn t = t\<lparr>cleanup_fn := Some fn\<rparr>"

text \<open>
  A write through a pointer to the header of a stored task.
\<close>

definition update_task :: "task_ref \<Rightarrow> (iree_task \<Rightarrow> iree_task) \<Rightarrow> world \<Rightarrow> world" where
  "update_task task f w =
     (case heap w task of
        None \<Rightarrow> w
      | Some ob \<Rightarrow> w\<lparr>heap := (heap w)(task \<mapsto> set_header (f (header_of ob)) ob)\<rparr>)"

text \<open>
  Modelled from the spec: \<open>acquire_fence(scope)\<close> hands out a fence, "a completion sink";
  the fence is a task of the executor's own, with no closure.
\<close>

definition iree_task_executor_acquire_fence :: "env \<Rightarrow> world \<Rightarrow> (error + task_ref) \<times> world" where
  "iree_task_executor_acquire_fence env w =
     (case ext_call env Executor_acquire_fence w of
        (Inl e, w1) \<Rightarrow> (Inl e, w1)
      | (Inr _, w1) \<Rightarrow>
          (Inr (next_ref w1),
           w1\<lparr>heap := (heap w1)(next_ref w1 \<mapsto>
                  Fence_obj \<lparr>closure_fn = None, completion_task = None, cleanup_fn = None\<rparr>),
              next_ref := Suc (next_ref w1)\<rparr>))"

definition iree_task_executor_submit :: "task_ref list \<Rightarrow> world \<Rightarrow> world" where
  "iree_task_executor_submit submission w = ext_void (Executor_submit submission) w"

definition iree_task_executor_flush :: "world \<Rightarrow> world" where
  "iree_task_executor_flush w = ext_void Executor_flush w"

definition iree_hal_semaphore_signal :: "env \<Rightarrow> semaphore \<Rightarrow> 64 word \<Rightarrow> world \<Rightarrow> iree_status \<times> world" where
  "iree_hal_semaphore_signal env s v w = ext_call env (Semaphore_signal s v) w"

definition iree_hal_semaphore_fail :: "semaphore \<Rightarrow> iree_status \<Rightarrow> world \<Rightarrow> world" where
  "iree_hal_semaphore_fail s status w = ext_void (Semaphore_fail s status) w"

definition iree_hal_task_semaphore_enqueue_timepoint ::
  "env \<Rightarrow> semaphore \<Rightarrow> 64 word \<Rightarrow> task_ref option \<Rightarrow> arena_ref \<Rightarrow> world \<Rightarrow> iree_status \<times> world" where
  "iree_hal_task_semaphore_enqueue_timepoint env s v completion arena w =
     ext_call env (Semaphore_enqueue_timepoint s v completion arena) w"

definition iree_hal_task_command_buffer_issue ::
  "env \<Rightarrow> command_buffer \<Rightarrow> task_ref option \<Rightarrow> arena_ref \<Rightarrow> world \<Rightarrow> iree_status \<times> world" where
  "iree_hal_task_command_buffer_issue env cb completion arena w =
     ext_call env (Command_buffer_issue cb completion arena) w"

fun status_of :: "error + 'a \<Rightarrow> iree_status" where
  "status_of (Inl e) = Inl e"
| "status_of (Inr _) = iree_ok_status"

fun pointer_of :: "error + 'a \<Rightarrow> 'a option" where
  "pointer_of (Inl e) = None"
| "pointer_of (Inr p) = Some p"

subsection \<open>The wait command\<close>

function iree_hal_task_queue_wait_cmd_loop ::
  "env \<Rightarrow> wait_cmd \<Rightarrow> nat \<Rightarrow> iree_status \<Rightarrow> world \<Rightarrow> iree_status \<times> world" where
  "iree_hal_task_queue_wait_cmd_loop env cmd i status w =
     (if i < count (wait_semaphores cmd) then
        (case iree_hal_task_semaphore_enqueue_timepoint env
                (semaphores (wait_semaphores cmd) ! i)
                (payload_values (wait_semaphores cmd) ! i)
                (completion_task (wait_task cmd)) (wait_arena cmd) w of
           (status1, w1) \<Rightarrow>
             if \<not> iree_status_is_ok status1 then (status1, w1)
             else iree_hal_task_queue_wait_cmd_loop env cmd (Suc i) status1 w1)
      else (status, w))"
  by pat_completeness auto
termination
  by (relation "measure (\<lambda>(env, cmd, i, status, w). count (wait_semaphores cmd) - i)") auto

declare iree_hal_task_queue_wait_cmd_loop.simps [simp del]

definition iree_hal_task_queue_wait_cmd :: "env \<Rightarrow> wait_cmd \<Rightarrow> world \<Rightarrow> iree_status \<times> world" where
  "iree_hal_task_queue_wait_cmd env cmd w =
     iree_hal_task_queue_wait_cmd_loop env cmd 0 iree_ok_status w"

definition iree_hal_task_queue_wait_cmd_cleanup :: "wait_cmd \<Rightarrow> iree_status \<Rightarrow> world \<Rightarrow> world" where
  "iree_hal_task_queue_wait_cmd_cleanup cmd status w =
     iree_hal_semaphore_list_release (wait_semaphores cmd) w"

text \<open>
  The record is written to the heap once the clone has succeeded; when the clone fails
  the half-initialized record is never handed out (\<open>*out_cmd\<close> stays unset).
\<close>

definition iree_hal_task_queue_wait_cmd_allocate ::
  "env \<Rightarrow> semaphore_list \<Rightarrow> arena_ref \<Rightarrow> world \<Rightarrow> (error + task_ref) \<times> world" where
  "iree_hal_task_queue_wait_cmd_allocate env wait_sems arena w =
     (case iree_arena_allocate env arena Sizeof_wait_cmd w of
        (Inl e, w1) \<Rightarrow> (Inl e, w1)
      | (Inr cmd, w1) \<Rightarrow>
          (let task = iree_task_set_cleanup_fn Wait_cmd_cleanup_fn
                        (iree_task_call_initialize Wait_cmd_fn)
           in case iree_hal_semaphore_list_clone env wait_sems arena w1 of
                (Inl e, w2) \<Rightarrow> (Inl e, w2)
              | (Inr cloned, w2) \<Rightarrow>
                  (Inr cmd,
                   w2\<lparr>heap := (heap w2)(cmd \<mapsto>
                         Wait_obj \<lparr>wait_task = task, wait_arena = arena,
                                   wait_semaphores = cloned\<rparr>)\<rparr>)))"

subsection \<open>The issue command\<close>

function iree_hal_task_queue_issue_cmd_loop ::
  "env \<Rightarrow> issue_cmd \<Rightarrow> nat \<Rightarrow> iree_status \<Rightarrow> world \<Rightarrow> iree_status \<times> world" where
  "iree_hal_task_queue_issue_cmd_loop env cmd i status w =
     (if i < command_buffer_count cmd then
        (case iree_hal_task_command_buffer_issue env (command_buffers cmd ! i)
                (completion_task (issue_task cmd)) (issue_arena cmd) w of
           (status1, w1) \<Rightarrow>
             if \<not> iree_status_is_ok status1 then (status1, w1)
             else iree_hal_task_queue_issue_cmd_loop env cmd (Suc i) status1 w1)
      else (status, w))"
  by pat_completeness auto
termination
  by (relation "measure (\<lambda>(env, cmd, i, status, w). command_buffer_count cmd - i)") auto

declare iree_hal_task_queue_issue_cmd_loop.simps [simp del]

definition iree_hal_task_queue_issue_cmd :: "env \<Rightarrow> issue_cmd \<Rightarrow> world \<Rightarrow> iree_status \<times> world" where
  "iree_hal_task_queue_issue_cmd env cmd w =
     (if command_buffer_count cmd > 0
      then iree_hal_task_queue_issue_cmd_loop env cmd 0 iree_ok_status w
      else (iree_ok_status, w))"

text \<open>
  The cleanup compares the queue's tail with the task's own address.
\<close>

definition iree_hal_task_queue_issue_cmd_cleanup :: "task_ref \<Rightarrow> iree_status \<Rightarrow> world \<Rightarrow> world" where
  "iree_hal_task_queue_issue_cmd_cleanup task status w =
     (if tail_issue_task w = Some task then w\<lparr>tail_issue_task := None\<rparr> else w)"

definition iree_hal_task_queue_issue_cmd_allocate ::
  "env \<Rightarrow> task_ref \<Rightarrow> nat \<Rightarrow> command_buffer list \<Rightarrow> arena_ref \<Rightarrow> world \<Rightarrow> (error + task_ref) \<times> world" where
  "iree_hal_task_queue_issue_cmd_allocate env retire cb_count cbs arena w =
     (case iree_arena_allocate env arena (Sizeof_issue_cmd cb_count) w of
        (Inl e, w1) \<Rightarrow> (Inl e, w1)
      | (Inr cmd, w1) \<Rightarrow>
          (let task = iree_task_set_cleanup_fn Issue_cmd_cleanup_fn
                        (iree_task_set_completion_task (Some retire)
                           (iree_task_call_initialize Issue_cmd_fn))
           in (Inr cmd,
               w1\<lparr>heap := (heap w1)(cmd \<mapsto>
                     Issue_obj \<lparr>issue_task = task, issue_arena = arena,
                                command_buffer_count = cb_count,
                                command_buffers = take cb_count cbs\<rparr>)\<rparr>)))"

subsection \<open>The retire command\<close>

function iree_hal_task_queue_retire_cmd_loop ::
  "env \<Rightarrow> retire_cmd \<Rightarrow> nat \<Rightarrow> iree_status \<Rightarrow> world \<Rightarrow> iree_status \<times> world" where
  "iree_hal_task_queue_retire_cmd_loop env cmd i status w =
     (if i < count (signal_semaphores cmd) then
        (case iree_hal_semaphore_signal env (semaphores (signal_semaphores cmd) ! i)
                (payload_values (signal_semaphores cmd) ! i) w of
           (status1, w1) \<Rightarrow>
             if \<not> iree_status_is_ok status1 then (status1, w1)
             else iree_hal_task_queue_retire_cmd_loop env cmd (Suc i) status1 w1)
      else (status, w))"
  by pat_completeness auto
termination
  by (relation "measure (\<lambda>(env, cmd, i, status, w). count (signal_semaphores cmd) - i)") auto

declare iree_hal_task_queue_retire_cmd_loop.simps [simp del]

definition iree_hal_task_queue_retire_cmd :: "env \<Rightarrow> retire_cmd \<Rightarrow> world \<Rightarrow> iree_status \<times> world" where
  "iree_hal_task_queue_retire_cmd env cmd w =
     iree_hal_task_queue_retire_cmd_loop env cmd 0 iree_ok_status w"

function iree_hal_task_queue_retire_cmd_fail_loop ::
  "retire_cmd \<Rightarrow> iree_status \<Rightarrow> nat \<Rightarrow> world \<Rightarrow> world" where
  "iree_hal_task_queue_retire_cmd_fail_loop cmd status i w =
     (if i < count (signal_semaphores cmd) then
        iree_hal_task_queue_retire_cmd_fail_loop cmd status (Suc i)
          (iree_hal_semaphore_fail (semaphores (signal_semaphores cmd) ! i)
             (iree_status_clone status) w)
      else w)"
  by pat_completeness auto
termination
  by (relation "measure (\<lambda>(cmd, status, i, w). count (signal_semaphores cmd) - i)") auto

declare iree_hal_task_queue_retire_cmd_fail_loop.simps [simp del]

definition iree_hal_task_queue_retire_cmd_cleanup :: "retire_cmd \<Rightarrow> iree_status \<Rightarrow> world \<Rightarrow> world" where
  "iree_hal_task_queue_retire_cmd_cleanup cmd status w =
     (let w1 = (if \<not> iree_status_is_ok status
                then iree_hal_task_queue_retire_cmd_fail_loop cmd status 0 w else w);
          w2 = iree_hal_semaphore_list_release (signal_semaphores cmd) w1;
          arena = retire_arena cmd
      in iree_arena_deinitialize arena w2)"

definition iree_hal_task_queue_retire_cmd_allocate ::
  "env \<Rightarrow> semaphore_list \<Rightarrow> world \<Rightarrow> (error + task_ref) \<times> world" where
  "iree_hal_task_queue_retire_cmd_allocate env signal_sems w =
     (case iree_arena_initialize w of
        (arena, w0) \<Rightarrow>
          (case iree_arena_allocate env arena Sizeof_retire_cmd w0 of
             (Inl e, w1) \<Rightarrow> (Inl e, iree_arena_deinitialize arena w1)
           | (Inr cmd, w1) \<Rightarrow>
               (let task = iree_task_set_cleanup_fn Retire_cmd_cleanup_fn
                             (iree_task_call_initialize Retire_cmd_fn)
                in case iree_hal_semaphore_list_clone env signal_sems arena w1 of
                     (Inl e, w2) \<Rightarrow> (Inl e, iree_arena_deinitialize arena w2)
                   | (Inr cloned, w2) \<Rightarrow>
                       (Inr cmd,
                        w2\<lparr>heap := (heap w2)(cmd \<mapsto>
                              Retire_obj \<lparr>retire_task = task, retire_arena = arena,
                                          signal_semaphores = cloned\<rparr>)\<rparr>))))"

subsection \<open>The queue\<close>

text \<open>
  A freshly initialized queue: nothing called yet, no record, a null tail. (Retaining the
  executor and initializing the scope, the mutex and the queue state are not logged; no
  property below depends on them.)
\<close>

definition iree_hal_task_queue_initialize :: world where
  "iree_hal_task_queue_initialize =
     \<lparr>calls = [], heap = Map.empty, next_ref = 0, tail_issue_task = None\<rparr>"

text \<open>
  \<open>&retire_cmd->arena\<close> is the arena named by the retire command (see
  \<open>iree_arena_initialize\<close>). The fence pointer is null when its acquisition failed;
  the retire command's completion task is set from it either way, as in the source.
\<close>

definition iree_hal_task_queue_submit_batch :: "env \<Rightarrow> batch \<Rightarrow> world \<Rightarrow> iree_status \<times> world" where
  "iree_hal_task_queue_submit_batch env b w =
     (case iree_hal_task_queue_retire_cmd_allocate env (batch_signal_semaphores b) w of
        (Inl e, w1) \<Rightarrow> (Inl e, w1)
      | (Inr retire_cmd, w1) \<Rightarrow>
          (case iree_task_executor_acquire_fence env w1 of
             (fence_result, w2) \<Rightarrow>
               (let status = status_of fence_result;
                    fence = pointer_of fence_result;
                    w3 = update_task retire_cmd (iree_task_set_completion_task fence) w2;
                    arena = retire_cmd
                in case (if iree_status_is_ok status \<and> count (batch_wait_semaphores b) > 0
                         then (case iree_hal_task_queue_wait_cmd_allocate env
                                      (batch_wait_semaphores b) arena w3 of
                                 (r, w4) \<Rightarrow> (status_of r, pointer_of r, w4))
                         else (status, None, w3)) of
                     (status1, wait_cmd, w4) \<Rightarrow>
                       if \<not> iree_status_is_ok status1
                       then (status1, iree_arena_deinitialize arena w4)
                       else
                         (case iree_hal_task_queue_issue_cmd_allocate env retire_cmd
                                 (batch_command_buffer_count b) (batch_command_buffers b)
                                 arena w4 of
                            (Inl e, w5) \<Rightarrow> (Inl e, iree_arena_deinitialize arena w5)
                          | (Inr issue_cmd, w5) \<Rightarrow>
                              (case (case wait_cmd of
                                       Some wc \<Rightarrow>
                                         ([wc], update_task wc
                                            (iree_task_set_completion_task (Some issue_cmd)) w5)
                                     | None \<Rightarrow> ([issue_cmd], w5)) of
                                 (submission, w6) \<Rightarrow>
                                   (let w7 = (case tail_issue_task w6 of
                                                Some tail \<Rightarrow>
                                                  update_task tail
                                                    (iree_task_set_completion_task (Some issue_cmd)) w6
                                              | None \<Rightarrow> w6);
                                        w8 = w7\<lparr>tail_issue_task := Some issue_cmd\<rparr>
                                    in (iree_ok_status,
                                        iree_task_executor_submit submission w8)))))))"

function iree_hal_task_queue_submit_loop ::
  "env \<Rightarrow> nat \<Rightarrow> batch list \<Rightarrow> nat \<Rightarrow> world \<Rightarrow> iree_status \<times> world" where
  "iree_hal_task_queue_submit_loop env batch_count batches i w =
     (if i < batch_count then
        (case iree_hal_task_queue_submit_batch env (batches ! i) w of
           (Inl e, w1) \<Rightarrow> (Inl e, w1)
         | (Inr _, w1) \<Rightarrow> iree_hal_task_queue_submit_loop env batch_count batches (Suc i) w1)
      else (iree_ok_status, w))"
  by pat_completeness auto
termination
  by (relation "measure (\<lambda>(env, batch_count, batches, i, w). batch_count - i)") auto

declare iree_hal_task_queue_submit_loop.simps [simp del]

definition iree_hal_task_queue_submit :: "env \<Rightarrow> nat \<Rightarrow> batch list \<Rightarrow> world \<Rightarrow> iree_status \<times> world" where
  "iree_hal_task_queue_submit env batch_count batches w =
     (case iree_hal_task_queue_submit_loop env batch_count batches 0 w of
        (Inl e, w1) \<Rightarrow> (Inl e, w1)
      | (Inr _, w1) \<Rightarrow> (iree_ok_status, iree_task_executor_flush w1))"

subsection \<open>Notions used to state the properties\<close>

text \<open>
  The entries of a semaphore list in order: the first \<open>count\<close> handles paired with the
  first \<open>count\<close> payload values.
\<close>

definition semaphore_list_entries :: "semaphore_list \<Rightarrow> (semaphore \<times> 64 word) list" where
  "semaphore_list_entries l = zip (take (count l) (semaphores l)) (take (count l) (payload_values l))"

text \<open>
  The wait, issue and retire loops have one shape: make the calls of a list in order,
  keep the last status, stop at the first status that is not ok. \<open>call_until_error\<close>
  is that shape over the list of calls; each loop is proved equal to it below.
\<close>

fun call_until_error :: "env \<Rightarrow> call list \<Rightarrow> iree_status \<Rightarrow> world \<Rightarrow> iree_status \<times> world" where
  "call_until_error env [] status w = (status, w)"
| "call_until_error env (c # cs) status w =
     (case ext_call env c w of
        (status1, w1) \<Rightarrow>
          if \<not> iree_status_is_ok status1 then (status1, w1)
          else call_until_error env cs status1 w1)"

text \<open>
  Addresses are handed out in increasing order: in every world the queue reaches, the
  records in the heap lie below \<open>next_ref\<close> (\<open>run_heap_ok\<close> below).
\<close>

definition heap_ok :: "world \<Rightarrow> bool" where
  "heap_ok w = (\<forall>t. t \<in> dom (heap w) \<longrightarrow> t < next_ref w)"

text \<open>
  A world is well formed when its records lie below \<open>next_ref\<close> and its tail, if any,
  is the address of a record. Every world the queue reaches is (\<open>run_world_ok\<close> below).
\<close>

definition world_ok :: "world \<Rightarrow> bool" where
  "world_ok w =
     (heap_ok w \<and> (case tail_issue_task w of None \<Rightarrow> True | Some t \<Rightarrow> t \<in> dom (heap w)))"

text \<open>
  The kind of record at each address; a write to a task's header leaves it as it is.
\<close>

datatype kind = Wait_kind | Issue_kind | Retire_kind | Fence_kind

fun kind_of :: "obj \<Rightarrow> kind" where
  "kind_of (Wait_obj c) = Wait_kind"
| "kind_of (Issue_obj c) = Issue_kind"
| "kind_of (Retire_obj c) = Retire_kind"
| "kind_of (Fence_obj t) = Fence_kind"

definition heap_kinds :: "(task_ref \<rightharpoonup> obj) \<Rightarrow> task_ref \<Rightarrow> kind option" where
  "heap_kinds h t = map_option kind_of (h t)"

text \<open>
  What the clone loop writes for a source list, read through the indices \<open>0 .. count - 1\<close>;
  for a well-formed source these are the first \<open>count\<close> entries of its arrays
  (\<open>cloned_list_ok\<close> below).
\<close>

definition cloned_list :: "semaphore_list \<Rightarrow> semaphore_list" where
  "cloned_list l =
     \<lparr>count = count l,
      semaphores = map ((!) (semaphores l)) [0..<count l],
      payload_values = map ((!) (payload_values l)) [0..<count l]\<rparr>"

text \<open>
  The address of the issue command of a batch submitted in world \<open>w\<close>: the retire
  command, the buffer of its signal list and the fence come first, then the wait command
  and the buffer of its list when the batch has waits.
\<close>

definition issue_ref :: "batch \<Rightarrow> world \<Rightarrow> task_ref" where
  "issue_ref b w = (if 0 < count (batch_wait_semaphores b) then next_ref w + 5 else next_ref w + 3)"

text \<open>
  The calls made while the records of a submission are set up: arena calls, retains and
  the acquisition of the fence.
\<close>

fun setup_call :: "call \<Rightarrow> bool" where
  "setup_call (Arena_initialize a) = True"
| "setup_call (Arena_allocate a z) = True"
| "setup_call (Arena_deinitialize a) = True"
| "setup_call (Semaphore_retain s) = True"
| "setup_call Executor_acquire_fence = True"
| "setup_call c = False"

text \<open>
  The calls of a batch whose allocations all succeed, up to the allocation of the issue
  command, for the arena \<open>r\<close>.
\<close>

definition allocation_calls :: "batch \<Rightarrow> arena_ref \<Rightarrow> call list" where
  "allocation_calls b r =
     [Arena_initialize r, Arena_allocate r Sizeof_retire_cmd,
      Arena_allocate r (Sizeof_semaphore_list (count (batch_signal_semaphores b)))] @
     map (\<lambda>j. Semaphore_retain (semaphores (batch_signal_semaphores b) ! j))
       [0..<count (batch_signal_semaphores b)] @
     [Executor_acquire_fence] @
     (if 0 < count (batch_wait_semaphores b)
      then [Arena_allocate r Sizeof_wait_cmd,
            Arena_allocate r (Sizeof_semaphore_list (count (batch_wait_semaphores b)))] @
           map (\<lambda>j. Semaphore_retain (semaphores (batch_wait_semaphores b) ! j))
             [0..<count (batch_wait_semaphores b)]
      else []) @
     [Arena_allocate r (Sizeof_issue_cmd (batch_command_buffer_count b))]"

text \<open>
  The world after the batches of a list have gone through
  \<open>iree_hal_task_queue_submit_batch\<close> one after the other.
\<close>

definition world_after :: "env \<Rightarrow> batch list \<Rightarrow> world \<Rightarrow> world" where
  "world_after env bs w = foldl (\<lambda>w b. snd (iree_hal_task_queue_submit_batch env b w)) w bs"

text \<open>
  The shape of the loop of \<open>iree_hal_task_queue_submit\<close> over the list of the batches
  it visits: submit them in order, stop at the first error.
\<close>

fun submit_batches :: "env \<Rightarrow> batch list \<Rightarrow> world \<Rightarrow> iree_status \<times> world" where
  "submit_batches env [] w = (iree_ok_status, w)"
| "submit_batches env (b # bs) w =
     (case iree_hal_task_queue_submit_batch env b w of
        (Inl e, w1) \<Rightarrow> (Inl e, w1)
      | (Inr _, w1) \<Rightarrow> submit_batches env bs w1)"

subsection \<open>The queue in use: clients submit, the executor runs and cleans up tasks\<close>

text \<open>
  Modelled from the spec: the executor (iree/task/executor.c is not among the sources)
  calls a task's closure to run it and calls the task's cleanup function once, with the
  task's final status ("cleanup runs only once"). The order in which it does so is left
  open: a history is any list of actions. The set \<open>cleaned\<close> beside the world holds the
  tasks whose cleanup has run; it is bookkeeping of the model, not data of the program.
\<close>

datatype action =
    Submit nat "batch list"
  | Run_task task_ref
  | Cleanup_task task_ref iree_status

definition run_task :: "env \<Rightarrow> task_ref \<Rightarrow> world \<Rightarrow> world" where
  "run_task env t w =
     (case heap w t of
        Some (Wait_obj c) \<Rightarrow> snd (iree_hal_task_queue_wait_cmd env c w)
      | Some (Issue_obj c) \<Rightarrow> snd (iree_hal_task_queue_issue_cmd env c w)
      | Some (Retire_obj c) \<Rightarrow> snd (iree_hal_task_queue_retire_cmd env c w)
      | _ \<Rightarrow> w)"

definition cleanup_task :: "task_ref \<Rightarrow> iree_status \<Rightarrow> world \<Rightarrow> world" where
  "cleanup_task t status w =
     (case heap w t of
        Some (Wait_obj c) \<Rightarrow> iree_hal_task_queue_wait_cmd_cleanup c status w
      | Some (Issue_obj c) \<Rightarrow> iree_hal_task_queue_issue_cmd_cleanup t status w
      | Some (Retire_obj c) \<Rightarrow> iree_hal_task_queue_retire_cmd_cleanup c status w
      | _ \<Rightarrow> w)"

fun step :: "env \<Rightarrow> world \<times> task_ref set \<Rightarrow> action \<Rightarrow> world \<times> task_ref set" where
  "step env (w, cleaned) (Submit batch_count batches) =
     (snd (iree_hal_task_queue_submit env batch_count batches w), cleaned)"
| "step env (w, cleaned) (Run_task t) = (run_task env t w, cleaned)"
| "step env (w, cleaned) (Cleanup_task t status) =
     (if t \<in> cleaned \<or> heap w t = None then (w, cleaned)
      else (cleanup_task t status w, insert t cleaned))"

definition run :: "env \<Rightarrow> action list \<Rightarrow> world \<times> task_ref set" where
  "run env acts = foldl (step env) (iree_hal_task_queue_initialize, {}) acts"

text \<open>
  The tail is null, or the address of an issue command whose cleanup has not run.
\<close>

definition tail_issue_task_ok :: "world \<times> task_ref set \<Rightarrow> bool" where
  "tail_issue_task_ok s =
     (case tail_issue_task (fst s) of
        None \<Rightarrow> True
      | Some t \<Rightarrow>
          (case heap (fst s) t of
             Some (Issue_obj c) \<Rightarrow> t \<notin> snd s
           | _ \<Rightarrow> False))"

text \<open>
  The invariant that carries the proof: the records lie below \<open>next_ref\<close>, so do the
  cleaned tasks, and the tail is as above.
\<close>

definition sys_inv :: "world \<times> task_ref set \<Rightarrow> bool" where
  "sys_inv s = (heap_ok (fst s) \<and> (\<forall>t \<in> snd s. t < next_ref (fst s)) \<and> tail_issue_task_ok s)"

subsection \<open>The executor completing tasks along their completion edges\<close>

text \<open>
  Modelled from the spec: the executor "honours completion-edges"; tasks "complete and
  fire edges", and for an issue task with no command buffers "the completion edge fires
  immediately upon issue task completion". The completion edge of a task is the task
  held in its \<open>header.completion_task\<close>, the one field the task primitives set and the
  run functions read.
\<close>

definition completion_edge :: "world \<Rightarrow> task_ref \<Rightarrow> task_ref option" where
  "completion_edge w t =
     (case heap w t of
        None \<Rightarrow> None
      | Some ob \<Rightarrow> completion_task (header_of ob))"



section \<open>Properties\<close>

subsection \<open>The loops over a semaphore list, in closed form\<close>

lemma world_calls_id [simp]: "w\<lparr>calls := calls w\<rparr> = w" by simp

lemma release_loop_eq:
  "iree_hal_semaphore_list_release_loop l i w =
     w\<lparr>calls := calls w @ map (\<lambda>j. Semaphore_release (semaphores l ! j)) [i..<count l]\<rparr>"
proof (induction l i w rule: iree_hal_semaphore_list_release_loop.induct)
  case (1 l i w)
  show ?case
  proof (cases "i < count l")
    case True
    then show ?thesis
      using 1
      by (subst iree_hal_semaphore_list_release_loop.simps)
         (simp add: iree_hal_semaphore_release_def ext_void_def upt_conv_Cons)
  next
    case False
    then show ?thesis
      by (subst iree_hal_semaphore_list_release_loop.simps) simp
  qed
qed

lemma map_nth_upt_take: "n \<le> length xs \<Longrightarrow> map (\<lambda>j. f (xs ! j)) [0..<n] = map f (take n xs)"
  by (rule nth_equalityI) simp_all

lemma release_eq:
  "count l \<le> length (semaphores l) \<Longrightarrow>
   iree_hal_semaphore_list_release l w =
     w\<lparr>calls := calls w @ map Semaphore_release (take (count l) (semaphores l))\<rparr>"
  by (simp add: iree_hal_semaphore_list_release_def release_loop_eq map_nth_upt_take)

lemma clone_loop_eq:
  "i \<le> count src \<Longrightarrow> length (semaphores tgt) = count src \<Longrightarrow>
   length (payload_values tgt) = count src \<Longrightarrow>
   iree_hal_semaphore_list_clone_loop src i tgt w =
     (tgt\<lparr>semaphores := take i (semaphores tgt) @ map (\<lambda>j. semaphores src ! j) [i..<count src],
          payload_values := take i (payload_values tgt) @ map (\<lambda>j. payload_values src ! j) [i..<count src]\<rparr>,
      w\<lparr>calls := calls w @ map (\<lambda>j. Semaphore_retain (semaphores src ! j)) [i..<count src]\<rparr>)"
proof (induction src i tgt w rule: iree_hal_semaphore_list_clone_loop.induct)
  case (1 src i tgt w)
  show ?case
  proof (cases "i < count src")
    case True
    have a: "take (Suc i) ((semaphores tgt)[i := x]) = take i (semaphores tgt) @ [x]" for x
      using True 1(3) by (simp add: take_Suc_conv_app_nth)
    have b: "take (Suc i) ((payload_values tgt)[i := x]) = take i (payload_values tgt) @ [x]" for x
      using True 1(4) by (simp add: take_Suc_conv_app_nth)
    let ?t1 = "tgt\<lparr>semaphores := (semaphores tgt)[i := semaphores src ! i]\<rparr>"
    let ?w1 = "iree_hal_semaphore_retain (semaphores ?t1 ! i) w"
    let ?t2 = "?t1\<lparr>payload_values := (payload_values ?t1)[i := payload_values src ! i]\<rparr>"
    have step: "iree_hal_semaphore_list_clone_loop src i tgt w =
                iree_hal_semaphore_list_clone_loop src (Suc i) ?t2 ?w1"
      using True by (subst iree_hal_semaphore_list_clone_loop.simps) (simp add: Let_def)
    have IH: "iree_hal_semaphore_list_clone_loop src (Suc i) ?t2 ?w1 =
       (?t2\<lparr>semaphores := take (Suc i) (semaphores ?t2) @ map (\<lambda>j. semaphores src ! j) [Suc i..<count src],
          payload_values := take (Suc i) (payload_values ?t2) @ map (\<lambda>j. payload_values src ! j) [Suc i..<count src]\<rparr>,
        ?w1\<lparr>calls := calls ?w1 @ map (\<lambda>j. Semaphore_retain (semaphores src ! j)) [Suc i..<count src]\<rparr>)"
      by (rule 1(1)[OF True refl refl refl]) (use True 1(3,4) in simp_all)
    show ?thesis
      unfolding step IH using True 1(3,4)
      by (simp add: a b iree_hal_semaphore_retain_def ext_void_def upt_conv_Cons)
  next
    case False
    then show ?thesis
      using 1(2-4)
      by (subst iree_hal_semaphore_list_clone_loop.simps) simp
  qed
qed


lemma clone_eq:
  assumes "semaphore_list_ok src"
  shows "iree_hal_semaphore_list_clone env src arena w =
     (case env (calls w) (Arena_allocate arena (Sizeof_semaphore_list (count src))) of
        Inl e \<Rightarrow> (Inl e, w\<lparr>calls := calls w @ [Arena_allocate arena (Sizeof_semaphore_list (count src))]\<rparr>)
      | Inr _ \<Rightarrow>
          (Inr \<lparr>count = count src, semaphores = take (count src) (semaphores src),
                payload_values = take (count src) (payload_values src)\<rparr>,
           w\<lparr>calls := calls w @ Arena_allocate arena (Sizeof_semaphore_list (count src)) #
                   map Semaphore_retain (take (count src) (semaphores src)),
              next_ref := Suc (next_ref w)\<rparr>))"
proof -
  have a: "map ((!) (semaphores src)) [0..<count src] = take (count src) (semaphores src)"
    using assms map_nth_upt_take[of "count src" "semaphores src" "\<lambda>x. x"]
    by (simp add: semaphore_list_ok_def)
  have b: "map ((!) (payload_values src)) [0..<count src] = take (count src) (payload_values src)"
    using assms map_nth_upt_take[of "count src" "payload_values src" "\<lambda>x. x"]
    by (simp add: semaphore_list_ok_def)
  have c: "map (\<lambda>j. Semaphore_retain (semaphores src ! j)) [0..<count src] =
           map Semaphore_retain (take (count src) (semaphores src))"
    using assms by (simp add: semaphore_list_ok_def map_nth_upt_take)
  show ?thesis
    by (simp add: iree_hal_semaphore_list_clone_def iree_arena_allocate_def ext_call_def
        clone_loop_eq a b c split: sum.splits)
qed

lemma count_list_append [simp]: "count_list (xs @ ys) x = count_list xs x + count_list ys x"
  by (induction xs) auto

lemma count_list_map_retain [simp]:
  "count_list (map Semaphore_retain xs) (Semaphore_retain s) = count_list xs s"
  by (induction xs) auto

subsection \<open>Cloning a semaphore list\<close>

text \<open>
  Claim C10. Cloning a well-formed semaphore list makes exactly one arena allocation.
  When the allocation succeeds the clone returns ok with a target list of the same count
  that holds the source's handles and payload values in the source's order, and the calls
  made are that allocation followed by one retain per entry, in order. When the
  allocation fails the clone returns its error and has retained no semaphore.
\<close>

theorem semaphore_list_clone_atomic:
  assumes "semaphore_list_ok source_list"
  shows "(let alloc = Arena_allocate arena (Sizeof_semaphore_list (count source_list)) in
          case iree_hal_semaphore_list_clone env source_list arena w of
            (Inr target, w') \<Rightarrow>
               env (calls w) alloc = iree_ok_status \<and>
               count target = count source_list \<and>
               semaphores target = take (count source_list) (semaphores source_list) \<and>
               payload_values target = take (count source_list) (payload_values source_list) \<and>
               calls w' = calls w @ alloc # map Semaphore_retain (semaphores target) \<and>
               (\<forall>s. retain_count (calls w') s = retain_count (calls w) s + count_list (semaphores target) s)
          | (Inl e, w') \<Rightarrow>
               env (calls w) alloc = Inl e \<and>
               calls w' = calls w @ [alloc] \<and>
               (\<forall>s. retain_count (calls w') s = retain_count (calls w) s))"
  by (simp add: clone_eq[OF assms] Let_def retain_count_def split: sum.splits)

theorem semaphore_list_clone_atomic_witness:
  "semaphore_list_ok \<lparr>count = 2, semaphores = [5, 6], payload_values = [1, 2]\<rparr> \<and>
   (case iree_hal_semaphore_list_clone (\<lambda>h c. iree_ok_status)
           \<lparr>count = 2, semaphores = [5, 6], payload_values = [1, 2]\<rparr> 0
           iree_hal_task_queue_initialize of
      (Inr target, w') \<Rightarrow>
         semaphores target = [5, 6] \<and> payload_values target = [1, 2] \<and>
         calls w' = [Arena_allocate 0 (Sizeof_semaphore_list 2), Semaphore_retain 5, Semaphore_retain 6]
    | (Inl e, w') \<Rightarrow> False) \<and>
   (case iree_hal_semaphore_list_clone (\<lambda>h c. Inl (Error 8))
           \<lparr>count = 2, semaphores = [5, 6], payload_values = [1, 2]\<rparr> 0
           iree_hal_task_queue_initialize of
      (Inr target, w') \<Rightarrow> False
    | (Inl e, w') \<Rightarrow> e = Error 8 \<and> calls w' = [Arena_allocate 0 (Sizeof_semaphore_list 2)])"
  using semaphore_list_clone_atomic[of "\<lparr>count = 2, semaphores = [5, 6], payload_values = [1, 2]\<rparr>"
          0 "\<lambda>h c. iree_ok_status" iree_hal_task_queue_initialize]
        semaphore_list_clone_atomic[of "\<lparr>count = 2, semaphores = [5, 6], payload_values = [1, 2]\<rparr>"
          0 "\<lambda>h c. Inl (Error 8)" iree_hal_task_queue_initialize]
  by (auto simp: semaphore_list_ok_def Let_def iree_hal_task_queue_initialize_def split: prod.splits sum.splits)

subsection \<open>The loops that stop at the first error\<close>

lemma call_until_error_all_ok:
  "(\<And>j. j < length cs \<Longrightarrow> env (calls w @ take j cs) (cs ! j) = iree_ok_status) \<Longrightarrow>
   call_until_error env cs iree_ok_status w = (iree_ok_status, w\<lparr>calls := calls w @ cs\<rparr>)"
proof (induction cs arbitrary: w)
  case Nil
  then show ?case by simp
next
  case (Cons c cs)
  have h0: "env (calls w) c = iree_ok_status"
    using Cons.prems[of 0] by simp
  have hs: "env (calls (w\<lparr>calls := calls w @ [c]\<rparr>) @ take j cs) (cs ! j) = iree_ok_status"
    if "j < length cs" for j
    using Cons.prems[of "Suc j"] that by simp
  show ?case
    using Cons.IH[of "w\<lparr>calls := calls w @ [c]\<rparr>", OF hs] h0
    by (simp add: ext_call_def)
qed

lemma call_until_error_first_error:
  "k < length cs \<Longrightarrow>
   (\<And>j. j < k \<Longrightarrow> env (calls w @ take j cs) (cs ! j) = iree_ok_status) \<Longrightarrow>
   env (calls w @ take k cs) (cs ! k) = Inl e \<Longrightarrow>
   call_until_error env cs status w = (Inl e, w\<lparr>calls := calls w @ take (Suc k) cs\<rparr>)"
proof (induction cs arbitrary: w k status)
  case Nil
  then show ?case by simp
next
  case (Cons c cs)
  show ?case
  proof (cases k)
    case 0
    then show ?thesis using Cons.prems(3) by (simp add: ext_call_def)
  next
    case (Suc k')
    have h0: "env (calls w) c = iree_ok_status"
      using Cons.prems(2)[of 0] Suc by simp
    have hs: "env (calls (w\<lparr>calls := calls w @ [c]\<rparr>) @ take j cs) (cs ! j) = iree_ok_status"
      if "j < k'" for j
      using Cons.prems(2)[of "Suc j"] that Suc by simp
    have he: "env (calls (w\<lparr>calls := calls w @ [c]\<rparr>) @ take k' cs) (cs ! k') = Inl e"
      using Cons.prems(3) Suc by simp
    have "k' < length cs" using Cons.prems(1) Suc by simp
    from Cons.IH[OF this hs he, of iree_ok_status] h0 Suc
    show ?thesis by (simp add: ext_call_def)
  qed
qed

lemma wait_cmd_loop_eq:
  "iree_hal_task_queue_wait_cmd_loop env cmd i status w =
     call_until_error env
       (map (\<lambda>j. Semaphore_enqueue_timepoint (semaphores (wait_semaphores cmd) ! j)
                   (payload_values (wait_semaphores cmd) ! j)
                   (completion_task (wait_task cmd)) (wait_arena cmd))
            [i..<count (wait_semaphores cmd)]) status w"
proof (induction env cmd i status w rule: iree_hal_task_queue_wait_cmd_loop.induct)
  case (1 env cmd i status w)
  show ?case
  proof (cases "i < count (wait_semaphores cmd)")
    case True
    show ?thesis
      apply (subst iree_hal_task_queue_wait_cmd_loop.simps)
      using True 1[OF True prod.collapse]
      apply (simp add: upt_conv_Cons iree_hal_task_semaphore_enqueue_timepoint_def ext_call_def split: prod.splits)
      done
  next
    case False
    then show ?thesis
      by (subst iree_hal_task_queue_wait_cmd_loop.simps) simp
  qed
qed


lemma issue_cmd_loop_eq:
  "iree_hal_task_queue_issue_cmd_loop env cmd i status w =
     call_until_error env
       (map (\<lambda>j. Command_buffer_issue (command_buffers cmd ! j)
                   (completion_task (issue_task cmd)) (issue_arena cmd))
            [i..<command_buffer_count cmd]) status w"
proof (induction env cmd i status w rule: iree_hal_task_queue_issue_cmd_loop.induct)
  case (1 env cmd i status w)
  show ?case
  proof (cases "i < command_buffer_count cmd")
    case True
    show ?thesis
      apply (subst iree_hal_task_queue_issue_cmd_loop.simps)
      using True 1[OF True prod.collapse]
      apply (simp add: upt_conv_Cons iree_hal_task_command_buffer_issue_def ext_call_def split: prod.splits)
      done
  next
    case False
    then show ?thesis
      by (subst iree_hal_task_queue_issue_cmd_loop.simps) simp
  qed
qed

lemma retire_cmd_loop_eq:
  "iree_hal_task_queue_retire_cmd_loop env cmd i status w =
     call_until_error env
       (map (\<lambda>j. Semaphore_signal (semaphores (signal_semaphores cmd) ! j)
                   (payload_values (signal_semaphores cmd) ! j))
            [i..<count (signal_semaphores cmd)]) status w"
proof (induction env cmd i status w rule: iree_hal_task_queue_retire_cmd_loop.induct)
  case (1 env cmd i status w)
  show ?case
  proof (cases "i < count (signal_semaphores cmd)")
    case True
    show ?thesis
      apply (subst iree_hal_task_queue_retire_cmd_loop.simps)
      using True 1[OF True prod.collapse]
      apply (simp add: upt_conv_Cons iree_hal_semaphore_signal_def ext_call_def split: prod.splits)
      done
  next
    case False
    then show ?thesis
      by (subst iree_hal_task_queue_retire_cmd_loop.simps) simp
  qed
qed

lemma fail_loop_eq:
  "iree_hal_task_queue_retire_cmd_fail_loop cmd status i w =
     w\<lparr>calls := calls w @ map (\<lambda>j. Semaphore_fail (semaphores (signal_semaphores cmd) ! j)
                                    (iree_status_clone status))
                              [i..<count (signal_semaphores cmd)]\<rparr>"
proof (induction cmd status i w rule: iree_hal_task_queue_retire_cmd_fail_loop.induct)
  case (1 cmd status i w)
  show ?case
  proof (cases "i < count (signal_semaphores cmd)")
    case True
    then show ?thesis
      using 1
      by (subst iree_hal_task_queue_retire_cmd_fail_loop.simps)
         (simp add: iree_hal_semaphore_fail_def ext_void_def upt_conv_Cons)
  next
    case False
    then show ?thesis
      by (subst iree_hal_task_queue_retire_cmd_fail_loop.simps) simp
  qed
qed

lemma entries_map:
  assumes "semaphore_list_ok l"
  shows "map (\<lambda>j. f (semaphores l ! j) (payload_values l ! j)) [0..<count l] =
         map (\<lambda>(s, v). f s v) (semaphore_list_entries l)"
  using assms
  by (intro nth_equalityI) (simp_all add: semaphore_list_ok_def semaphore_list_entries_def)

lemma retire_cmd_eq:
  assumes "semaphore_list_ok (signal_semaphores cmd)"
  shows "iree_hal_task_queue_retire_cmd env cmd w =
     call_until_error env
       (map (\<lambda>(s, v). Semaphore_signal s v) (semaphore_list_entries (signal_semaphores cmd)))
       iree_ok_status w"
  by (simp add: iree_hal_task_queue_retire_cmd_def retire_cmd_loop_eq entries_map[OF assms])

subsection \<open>Submitting a batch: what one call does to the world\<close>

lemma clone_raw_eq:
  "iree_hal_semaphore_list_clone env src arena w =
     (case env (calls w) (Arena_allocate arena (Sizeof_semaphore_list (count src))) of
        Inl e \<Rightarrow> (Inl e, w\<lparr>calls := calls w @ [Arena_allocate arena (Sizeof_semaphore_list (count src))]\<rparr>)
      | Inr _ \<Rightarrow>
          (Inr (cloned_list src),
           w\<lparr>calls := calls w @ Arena_allocate arena (Sizeof_semaphore_list (count src)) #
                   map (\<lambda>j. Semaphore_retain (semaphores src ! j)) [0..<count src],
              next_ref := Suc (next_ref w)\<rparr>))"
  by (simp add: iree_hal_semaphore_list_clone_def iree_arena_allocate_def ext_call_def
        clone_loop_eq cloned_list_def split: sum.splits)

lemmas exec_defs = iree_hal_task_queue_submit_batch_def
  iree_hal_task_queue_retire_cmd_allocate_def iree_hal_task_queue_wait_cmd_allocate_def
  iree_hal_task_queue_issue_cmd_allocate_def iree_task_executor_acquire_fence_def
  iree_arena_initialize_def iree_arena_allocate_def iree_arena_deinitialize_def
  iree_task_executor_submit_def update_task_def ext_call_def ext_void_def
  iree_task_set_cleanup_fn_def iree_task_set_completion_task_def iree_task_call_initialize_def
  clone_raw_eq Let_def issue_ref_def eval_nat_numeral

lemma submit_batch_tail:
  "case iree_hal_task_queue_submit_batch env b w of
     (Inr _, w') \<Rightarrow> tail_issue_task w' = Some (issue_ref b w) \<and> next_ref w' = Suc (issue_ref b w)
   | (Inl e, w') \<Rightarrow> tail_issue_task w' = tail_issue_task w \<and> next_ref w \<le> next_ref w'"
  by (simp add: exec_defs split: sum.split prod.split option.split)

lemma submit_batch_new_objects:
  assumes "\<And>t. tail_issue_task w = Some t \<Longrightarrow> t < next_ref w"
  shows "case iree_hal_task_queue_submit_batch env b w of
     (Inr _, w') \<Rightarrow>
       heap w' (next_ref w) = Some (Retire_obj
          \<lparr>retire_task = \<lparr>closure_fn = Some Retire_cmd_fn, completion_task = Some (next_ref w + 2),
                           cleanup_fn = Some Retire_cmd_cleanup_fn\<rparr>,
           retire_arena = next_ref w,
           signal_semaphores = cloned_list (batch_signal_semaphores b)\<rparr>) \<and>
       heap w' (next_ref w + 2) = Some (Fence_obj
          \<lparr>closure_fn = None, completion_task = None, cleanup_fn = None\<rparr>) \<and>
       heap w' (issue_ref b w) = Some (Issue_obj
          \<lparr>issue_task = \<lparr>closure_fn = Some Issue_cmd_fn, completion_task = Some (next_ref w),
                          cleanup_fn = Some Issue_cmd_cleanup_fn\<rparr>,
           issue_arena = next_ref w,
           command_buffer_count = batch_command_buffer_count b,
           command_buffers = take (batch_command_buffer_count b) (batch_command_buffers b)\<rparr>) \<and>
       (if 0 < count (batch_wait_semaphores b) then
         heap w' (next_ref w + 3) = Some (Wait_obj
          \<lparr>wait_task = \<lparr>closure_fn = Some Wait_cmd_fn, completion_task = Some (issue_ref b w),
                         cleanup_fn = Some Wait_cmd_cleanup_fn\<rparr>,
           wait_arena = next_ref w,
           wait_semaphores = cloned_list (batch_wait_semaphores b)\<rparr>) else True)
   | (Inl e, w') \<Rightarrow> True"
  using assms
  by (auto simp add: exec_defs split: sum.split prod.split option.split)

lemma submit_batch_old_objects:
  "case iree_hal_task_queue_submit_batch env b w of
     (Inr _, w') \<Rightarrow>
       (\<forall>t < next_ref w. heap w' t =
          (if tail_issue_task w = Some t
           then map_option (\<lambda>ob. set_header ((header_of ob)\<lparr>completion_task := Some (issue_ref b w)\<rparr>) ob) (heap w t)
           else heap w t))
   | (Inl e, w') \<Rightarrow> (\<forall>t < next_ref w. heap w' t = heap w t)"
  by (auto simp add: exec_defs split: sum.split prod.split option.split)

lemma kind_of_set_header [simp]: "kind_of (set_header h ob) = kind_of ob"
  by (cases ob) auto

lemma heap_kinds_update_task [simp]:
  "heap_kinds (heap (update_task t f w)) = heap_kinds (heap w)"
  by (auto simp: heap_kinds_def update_task_def fun_eq_iff split: option.splits)

lemma heap_kinds_upd [simp]: "heap_kinds (h(a \<mapsto> ob)) = (heap_kinds h)(a \<mapsto> kind_of ob)"
  by (auto simp: heap_kinds_def fun_eq_iff)

lemma update_task_simps [simp]:
  "calls (update_task t f w) = calls w"
  "next_ref (update_task t f w) = next_ref w"
  "tail_issue_task (update_task t f w) = tail_issue_task w"
  by (simp_all add: update_task_def split: option.splits)

lemmas exec_defs' = iree_hal_task_queue_submit_batch_def
  iree_hal_task_queue_retire_cmd_allocate_def iree_hal_task_queue_wait_cmd_allocate_def
  iree_hal_task_queue_issue_cmd_allocate_def iree_task_executor_acquire_fence_def
  iree_arena_initialize_def iree_arena_allocate_def iree_arena_deinitialize_def
  iree_task_executor_submit_def ext_call_def ext_void_def
  iree_task_set_cleanup_fn_def iree_task_set_completion_task_def iree_task_call_initialize_def
  clone_raw_eq Let_def issue_ref_def eval_nat_numeral

lemma submit_batch_kinds:
  "case iree_hal_task_queue_submit_batch env b w of
     (st, w') \<Rightarrow>
       next_ref w \<le> next_ref w' \<and>
       (\<forall>t. heap_kinds (heap w') t = heap_kinds (heap w) t \<or>
            (t < next_ref w' \<and>
             (t = next_ref w \<and> heap_kinds (heap w') t = Some Retire_kind \<or>
              t = next_ref w + 2 \<and> heap_kinds (heap w') t = Some Fence_kind \<or>
              t = next_ref w + 3 \<and> 0 < count (batch_wait_semaphores b) \<and>
                heap_kinds (heap w') t = Some Wait_kind \<or>
              t = issue_ref b w \<and> st = iree_ok_status \<and>
                heap_kinds (heap w') t = Some Issue_kind)))"
  by (simp add: exec_defs' split: sum.split prod.split option.split)

lemma submit_batch_calls:
  "case iree_hal_task_queue_submit_batch env b w of
     (Inr _, w') \<Rightarrow>
       calls w' = calls w @ allocation_calls b (next_ref w) @
         [Executor_submit [if 0 < count (batch_wait_semaphores b) then next_ref w + 3
                           else issue_ref b w]]
   | (Inl e, w') \<Rightarrow> True"
  by (simp add: exec_defs allocation_calls_def split: sum.split prod.split option.split)

lemma world_ok_tail_below: "world_ok w \<Longrightarrow> tail_issue_task w = Some t \<Longrightarrow> t < next_ref w"
  by (auto simp: world_ok_def heap_ok_def)

lemma heap_ok_fresh: "heap_ok w \<Longrightarrow> next_ref w \<le> t \<Longrightarrow> heap w t = None"
  by (fastforce simp: heap_ok_def)

lemma heap_ok_below: "heap_ok w \<Longrightarrow> heap w t = Some ob \<Longrightarrow> t < next_ref w"
  by (auto simp: heap_ok_def)

lemma heap_kinds_Some: "heap_kinds h t = Some k \<longleftrightarrow> (\<exists>ob. h t = Some ob \<and> kind_of ob = k)"
  by (auto simp: heap_kinds_def)

lemma heap_kinds_None: "heap_kinds h t = None \<longleftrightarrow> h t = None"
  by (auto simp: heap_kinds_def)

lemma list_all_setup_retains [simp]:
  "list_all setup_call (map (\<lambda>j. Semaphore_retain (f j)) xs)"
  by (induction xs) auto

lemma submit_batch_fail_calls:
  "case iree_hal_task_queue_submit_batch env b w of
     (Inr _, w') \<Rightarrow> True
   | (Inl e, w') \<Rightarrow> (\<exists>pre. calls w' = calls w @ pre \<and> list_all setup_call pre)"
  by (simp add: exec_defs' split: sum.split prod.split option.split)

lemma allocation_calls_setup: "list_all setup_call (allocation_calls b r)"
  by (simp add: allocation_calls_def)

lemma count_list_setup:
  "list_all setup_call pre \<Longrightarrow> \<not> setup_call c \<Longrightarrow> count_list pre c = 0"
  by (induction pre) auto

subsection \<open>The FIFO edge between issue tasks\<close>

text \<open>
  Claim C2. Every batch that is submitted (the call returns ok) gets an issue command
  at a fresh address, and that address becomes the queue's tail. When the tail was
  non-null before the call, the completion task of the old tail is set to the new issue
  command: the edge goes to the issue task, whose record is an issue command, never to
  the batch's wait task. No other record that existed before the call is changed.
\<close>

theorem submit_batch_chains_tail:
  assumes sb: "iree_hal_task_queue_submit_batch env b w = (iree_ok_status, w')"
      and ok: "world_ok w"
  shows "\<exists>issue cmd.
           heap w issue = None \<and> heap w' issue = Some (Issue_obj cmd) \<and>
           closure_fn (issue_task cmd) = Some Issue_cmd_fn \<and>
           command_buffers cmd = take (batch_command_buffer_count b) (batch_command_buffers b) \<and>
           tail_issue_task w' = Some issue \<and>
           (\<forall>t ob. tail_issue_task w = Some t \<and> heap w t = Some ob \<longrightarrow>
              heap w' t = Some (set_header ((header_of ob)\<lparr>completion_task := Some issue\<rparr>) ob)) \<and>
           (\<forall>t ob. tail_issue_task w \<noteq> Some t \<and> heap w t = Some ob \<longrightarrow> heap w' t = Some ob)"
proof -
  let ?issue = "issue_ref b w"
  have hok: "heap_ok w" using ok by (simp add: world_ok_def)
  have fresh: "heap w ?issue = None"
    using hok by (intro heap_ok_fresh) (simp_all add: issue_ref_def)
  have tail: "tail_issue_task w' = Some ?issue"
    using submit_batch_tail[where w=w and env=env and b=b] sb by simp
  have new: "heap w' ?issue = Some (Issue_obj
          \<lparr>issue_task = \<lparr>closure_fn = Some Issue_cmd_fn, completion_task = Some (next_ref w),
                          cleanup_fn = Some Issue_cmd_cleanup_fn\<rparr>,
           issue_arena = next_ref w,
           command_buffer_count = batch_command_buffer_count b,
           command_buffers = take (batch_command_buffer_count b) (batch_command_buffers b)\<rparr>)"
    using submit_batch_new_objects[where w=w and env=env and b=b, OF world_ok_tail_below[OF ok]] sb by simp
  have old: "\<forall>t < next_ref w. heap w' t =
          (if tail_issue_task w = Some t
           then map_option (\<lambda>ob. set_header ((header_of ob)\<lparr>completion_task := Some ?issue\<rparr>) ob) (heap w t)
           else heap w t)"
    using submit_batch_old_objects[where w=w and env=env and b=b] sb by simp
  show ?thesis
    apply (rule exI[of _ ?issue])
    apply (rule exI)
    apply (intro conjI)
          apply (rule fresh)
         apply (rule new)
        apply simp
       apply simp
      apply (rule tail)
    using old heap_ok_below[OF hok] apply auto
    done
qed


lemma world_ok_initialize: "world_ok iree_hal_task_queue_initialize"
  by (simp add: world_ok_def heap_ok_def iree_hal_task_queue_initialize_def)

theorem submit_batch_chains_tail_witness:
  "(let env = (\<lambda>h c. iree_ok_status);
        b = \<lparr>batch_wait_semaphores = \<lparr>count = 1, semaphores = [7], payload_values = [5]\<rparr>,
             batch_signal_semaphores = \<lparr>count = 1, semaphores = [9], payload_values = [1]\<rparr>,
             batch_command_buffer_count = 1, batch_command_buffers = [4]\<rparr>;
        w1 = snd (iree_hal_task_queue_submit_batch env b iree_hal_task_queue_initialize);
        w2 = snd (iree_hal_task_queue_submit_batch env b w1)
    in iree_hal_task_queue_submit_batch env b w1 = (iree_ok_status, w2) \<and> world_ok w1 \<and>
       tail_issue_task w1 = Some 5 \<and> tail_issue_task w2 = Some 11 \<and>
       (\<exists>cmd. heap w1 5 = Some (Issue_obj cmd) \<and> completion_task (issue_task cmd) = Some 0) \<and>
       (\<exists>cmd. heap w2 5 = Some (Issue_obj cmd) \<and> completion_task (issue_task cmd) = Some 11) \<and>
       (\<exists>cmd. heap w2 9 = Some (Wait_obj cmd)) \<and>
       (\<exists>cmd. heap w2 11 = Some (Issue_obj cmd)))"
proof -
  let ?env = "\<lambda>(h::call list) (c::call). iree_ok_status"
  let ?b = "\<lparr>batch_wait_semaphores = \<lparr>count = 1, semaphores = [7], payload_values = [5]\<rparr>,
             batch_signal_semaphores = \<lparr>count = 1, semaphores = [9], payload_values = [1]\<rparr>,
             batch_command_buffer_count = 1, batch_command_buffers = [4]\<rparr>"
  let ?w1 = "snd (iree_hal_task_queue_submit_batch ?env ?b iree_hal_task_queue_initialize)"
  let ?w2 = "snd (iree_hal_task_queue_submit_batch ?env ?b ?w1)"
  have w1: "tail_issue_task ?w1 = Some 5" "next_ref ?w1 = 6" "dom (heap ?w1) = {0, 2, 3, 5}"
    "\<exists>cmd. heap ?w1 5 = Some (Issue_obj cmd) \<and> completion_task (issue_task cmd) = Some 0"
    by (auto simp add: exec_defs iree_hal_task_queue_initialize_def)
  have ok: "world_ok ?w1"
    using w1 by (simp add: world_ok_def heap_ok_def)
  have sb: "iree_hal_task_queue_submit_batch ?env ?b ?w1 = (iree_ok_status, ?w2)"
    by (simp add: exec_defs iree_hal_task_queue_initialize_def)
  have w2: "tail_issue_task ?w2 = Some 11"
    "\<exists>cmd. heap ?w2 5 = Some (Issue_obj cmd) \<and> completion_task (issue_task cmd) = Some 11"
    "\<exists>cmd. heap ?w2 9 = Some (Wait_obj cmd)"
    "\<exists>cmd. heap ?w2 11 = Some (Issue_obj cmd)"
    by (simp_all add: exec_defs iree_hal_task_queue_initialize_def)
  from submit_batch_chains_tail[OF sb ok] w1 w2 ok sb
  show ?thesis
    unfolding Let_def by blast
qed

lemma allocation_calls_no_submit: "Executor_submit ts \<notin> set (allocation_calls b r)"
  by (auto simp: allocation_calls_def)

subsection \<open>The head task of a batch\<close>

text \<open>
  Claim C7. For every batch that is submitted (the call returns ok), a wait command is
  among the records the call created if and only if the batch's wait-semaphore count is
  greater than zero, and the call hands exactly one submission to the executor, as its
  last call, holding one task: the wait command when the count is greater than zero, the
  issue command (the new tail) otherwise. A call that fails hands nothing to the executor,
  and has created a wait command only if the count is greater than zero.
\<close>

theorem submit_batch_head_task:
  assumes ok: "world_ok w"
  shows "case iree_hal_task_queue_submit_batch env b w of
     (Inr _, w') \<Rightarrow>
        ((\<exists>wait cmd. next_ref w \<le> wait \<and> heap w' wait = Some (Wait_obj cmd)) \<longleftrightarrow>
           0 < count (batch_wait_semaphores b)) \<and>
        (\<exists>pre head. calls w' = calls w @ pre @ [Executor_submit [head]] \<and>
             (\<forall>ts. Executor_submit ts \<notin> set pre) \<and> next_ref w \<le> head \<and>
             (if 0 < count (batch_wait_semaphores b)
              then (\<exists>cmd. heap w' head = Some (Wait_obj cmd))
              else tail_issue_task w' = Some head \<and> (\<exists>cmd. heap w' head = Some (Issue_obj cmd))))
   | (Inl e, w') \<Rightarrow>
        (\<forall>ts. count_list (calls w') (Executor_submit ts) = count_list (calls w) (Executor_submit ts)) \<and>
        ((\<exists>wait cmd. next_ref w \<le> wait \<and> heap w' wait = Some (Wait_obj cmd)) \<longrightarrow>
           0 < count (batch_wait_semaphores b))"
proof (cases "iree_hal_task_queue_submit_batch env b w")
  case (Pair st w')
  have hok: "heap_ok w" using ok by (simp add: world_ok_def)
  have only_if: "0 < count (batch_wait_semaphores b)"
    if "next_ref w \<le> t" "heap w' t = Some (Wait_obj cmd)" for t cmd
  proof -
    have "heap_kinds (heap w) t = None"
      using heap_ok_fresh[OF hok that(1)] by (simp add: heap_kinds_None)
    moreover have "heap_kinds (heap w') t = Some Wait_kind"
      using that(2) by (simp add: heap_kinds_Some)
    ultimately show ?thesis
      using submit_batch_kinds[where env = env and b = b and w = w] Pair
      by (auto dest!: spec[of _ t])
  qed
  show ?thesis
  proof (cases st)
    case (Inl e)
    from submit_batch_fail_calls[where env = env and b = b and w = w] Pair Inl
    obtain pre where pre: "calls w' = calls w @ pre" "list_all setup_call pre"
      by auto
    have "count_list (calls w') (Executor_submit ts) = count_list (calls w) (Executor_submit ts)" for ts
      using pre by (simp add: count_list_setup)
    then show ?thesis using Pair Inl only_if by auto
  next
    case (Inr u)
    let ?head = "if 0 < count (batch_wait_semaphores b) then next_ref w + 3 else issue_ref b w"
    have sb: "iree_hal_task_queue_submit_batch env b w = (iree_ok_status, w')"
      using Pair Inr by simp
    have cs: "calls w' = calls w @ allocation_calls b (next_ref w) @ [Executor_submit [?head]]"
      using submit_batch_calls[where env = env and b = b and w = w] sb by simp
    have tail: "tail_issue_task w' = Some (issue_ref b w)"
      using submit_batch_tail[where env = env and b = b and w = w] sb by simp
    have new: "\<exists>cmd. heap w' (issue_ref b w) = Some (Issue_obj cmd)"
      "0 < count (batch_wait_semaphores b) \<Longrightarrow> \<exists>cmd. heap w' (next_ref w + 3) = Some (Wait_obj cmd)"
      using submit_batch_new_objects[where w=w and env=env and b=b, OF world_ok_tail_below[OF ok]] sb
      by simp_all
    have iff: "(\<exists>wait cmd. next_ref w \<le> wait \<and> heap w' wait = Some (Wait_obj cmd)) \<longleftrightarrow>
           0 < count (batch_wait_semaphores b)"
      using only_if new(2) by (metis le_add1)
    have head: "\<exists>pre head. calls w' = calls w @ pre @ [Executor_submit [head]] \<and>
             (\<forall>ts. Executor_submit ts \<notin> set pre) \<and> next_ref w \<le> head \<and>
             (if 0 < count (batch_wait_semaphores b)
              then (\<exists>cmd. heap w' head = Some (Wait_obj cmd))
              else tail_issue_task w' = Some head \<and> (\<exists>cmd. heap w' head = Some (Issue_obj cmd)))"
      apply (rule exI[of _ "allocation_calls b (next_ref w)"])
      apply (rule exI[of _ ?head])
      using cs tail new allocation_calls_no_submit
      apply (cases "0 < count (batch_wait_semaphores b)")
       apply (simp_all add: issue_ref_def)
      done
    show ?thesis using sb iff head by simp
  qed
qed


theorem submit_batch_head_task_witness:
  "(let env = (\<lambda>h c. iree_ok_status);
        b1 = \<lparr>batch_wait_semaphores = \<lparr>count = 1, semaphores = [7], payload_values = [5]\<rparr>,
              batch_signal_semaphores = \<lparr>count = 1, semaphores = [9], payload_values = [1]\<rparr>,
              batch_command_buffer_count = 1, batch_command_buffers = [4]\<rparr>;
        b0 = \<lparr>batch_wait_semaphores = \<lparr>count = 0, semaphores = [], payload_values = []\<rparr>,
              batch_signal_semaphores = \<lparr>count = 1, semaphores = [9], payload_values = [1]\<rparr>,
              batch_command_buffer_count = 1, batch_command_buffers = [4]\<rparr>;
        w = iree_hal_task_queue_initialize
    in world_ok w \<and>
       (case iree_hal_task_queue_submit_batch env b1 w of
          (Inr _, w') \<Rightarrow> last (calls w') = Executor_submit [3] \<and>
                         (\<exists>cmd. heap w' 3 = Some (Wait_obj cmd)) \<and> tail_issue_task w' = Some 5
        | (Inl e, w') \<Rightarrow> False) \<and>
       (case iree_hal_task_queue_submit_batch env b0 w of
          (Inr _, w') \<Rightarrow> last (calls w') = Executor_submit [3] \<and>
                         (\<exists>cmd. heap w' 3 = Some (Issue_obj cmd)) \<and> tail_issue_task w' = Some 3
        | (Inl e, w') \<Rightarrow> False))"
  using submit_batch_head_task[OF world_ok_initialize, where env = "\<lambda>h c. iree_ok_status" and b =
      "\<lparr>batch_wait_semaphores = \<lparr>count = 1, semaphores = [7], payload_values = [5]\<rparr>,
              batch_signal_semaphores = \<lparr>count = 1, semaphores = [9], payload_values = [1]\<rparr>,
              batch_command_buffer_count = 1, batch_command_buffers = [4]\<rparr>"]
    submit_batch_head_task[OF world_ok_initialize, where env = "\<lambda>h c. iree_ok_status" and b =
      "\<lparr>batch_wait_semaphores = \<lparr>count = 0, semaphores = [], payload_values = []\<rparr>,
              batch_signal_semaphores = \<lparr>count = 1, semaphores = [9], payload_values = [1]\<rparr>,
              batch_command_buffer_count = 1, batch_command_buffers = [4]\<rparr>"]
    world_ok_initialize
  by (simp add: exec_defs iree_hal_task_queue_initialize_def)

lemma cloned_list_ok:
  assumes "semaphore_list_ok l"
  shows "semaphore_list_ok (cloned_list l)"
    and "semaphore_list_entries (cloned_list l) = semaphore_list_entries l"
    and "take (count (cloned_list l)) (semaphores (cloned_list l)) = take (count l) (semaphores l)"
proof -
  have a: "map ((!) (semaphores l)) [0..<count l] = take (count l) (semaphores l)"
    using assms map_nth_upt_take[of "count l" "semaphores l" "\<lambda>x. x"]
    by (simp add: semaphore_list_ok_def)
  have b: "map ((!) (payload_values l)) [0..<count l] = take (count l) (payload_values l)"
    using assms map_nth_upt_take[of "count l" "payload_values l" "\<lambda>x. x"]
    by (simp add: semaphore_list_ok_def)
  show "semaphore_list_ok (cloned_list l)"
    by (simp add: cloned_list_def semaphore_list_ok_def)
  show "semaphore_list_entries (cloned_list l) = semaphore_list_entries l"
    using assms by (simp add: cloned_list_def semaphore_list_entries_def a b semaphore_list_ok_def)
  show "take (count (cloned_list l)) (semaphores (cloned_list l)) = take (count l) (semaphores l)"
    using assms by (simp add: cloned_list_def a semaphore_list_ok_def)
qed

subsection \<open>The wait task's run function\<close>

lemma wait_cmd_eq:
  assumes "semaphore_list_ok (wait_semaphores cmd)"
  shows "iree_hal_task_queue_wait_cmd env cmd w =
     call_until_error env
       (map (\<lambda>(s, v). Semaphore_enqueue_timepoint s v (completion_task (wait_task cmd)) (wait_arena cmd))
          (semaphore_list_entries (wait_semaphores cmd)))
       iree_ok_status w"
  by (simp add: iree_hal_task_queue_wait_cmd_def wait_cmd_loop_eq
      entries_map[OF assms, where f = "\<lambda>s v. Semaphore_enqueue_timepoint s v (completion_task (wait_task cmd)) (wait_arena cmd)"])

lemma submit_batch_wait_link:
  assumes ok: "world_ok w0" and wf: "semaphore_list_ok (batch_wait_semaphores b)"
      and pos: "0 < count (batch_wait_semaphores b)"
      and sb: "iree_hal_task_queue_submit_batch env0 b w0 = (iree_ok_status, w1)"
  shows "\<exists>wait wcmd issue icmd retire rcmd.
            last (calls w1) = Executor_submit [wait] \<and>
            heap w1 wait = Some (Wait_obj wcmd) \<and>
            closure_fn (wait_task wcmd) = Some Wait_cmd_fn \<and>
            completion_task (wait_task wcmd) = Some issue \<and>
            heap w1 issue = Some (Issue_obj icmd) \<and>
            tail_issue_task w1 = Some issue \<and>
            completion_task (issue_task icmd) = Some retire \<and>
            heap w1 retire = Some (Retire_obj rcmd) \<and>
            wait_arena wcmd = retire_arena rcmd \<and>
            semaphore_list_ok (wait_semaphores wcmd) \<and>
            semaphore_list_entries (wait_semaphores wcmd) =
              semaphore_list_entries (batch_wait_semaphores b)"
proof -
  have cs: "last (calls w1) = Executor_submit [next_ref w0 + 3]"
    using submit_batch_calls[where env = env0 and b = b and w = w0] sb pos by simp
  have tail: "tail_issue_task w1 = Some (issue_ref b w0)"
    using submit_batch_tail[where env = env0 and b = b and w = w0] sb by simp
  note new = submit_batch_new_objects[where w=w0 and env=env0 and b=b, OF world_ok_tail_below[OF ok]]
  show ?thesis
    apply (rule exI[of _ "next_ref w0 + 3"])
    apply (rule exI[of _ "\<lparr>wait_task = \<lparr>closure_fn = Some Wait_cmd_fn, completion_task = Some (issue_ref b w0),
                         cleanup_fn = Some Wait_cmd_cleanup_fn\<rparr>,
           wait_arena = next_ref w0,
           wait_semaphores = cloned_list (batch_wait_semaphores b)\<rparr>"])
    apply (rule exI[of _ "issue_ref b w0"])
    apply (rule exI[of _ "\<lparr>issue_task = \<lparr>closure_fn = Some Issue_cmd_fn, completion_task = Some (next_ref w0),
                          cleanup_fn = Some Issue_cmd_cleanup_fn\<rparr>,
           issue_arena = next_ref w0,
           command_buffer_count = batch_command_buffer_count b,
           command_buffers = take (batch_command_buffer_count b) (batch_command_buffers b)\<rparr>"])
    apply (rule exI[of _ "next_ref w0"])
    apply (rule exI[of _ "\<lparr>retire_task = \<lparr>closure_fn = Some Retire_cmd_fn, completion_task = Some (next_ref w0 + 2),
                           cleanup_fn = Some Retire_cmd_cleanup_fn\<rparr>,
           retire_arena = next_ref w0,
           signal_semaphores = cloned_list (batch_signal_semaphores b)\<rparr>"])
    using cs tail new sb pos cloned_list_ok[OF wf]
    apply simp
    done
qed

text \<open>
  Claim C6. The wait task's run function makes one \<open>enqueue_timepoint\<close> call per
  entry of its wait list, in list order, each with the task's completion task and the
  command's arena. When every call returns ok the function returns ok; when the call for
  entry \<open>k\<close> is the first to fail the function returns its error, having made the
  calls for entries \<open>0 .. k\<close> and nothing else. For a batch with waits that was
  submitted in a well-formed world, the wait command handed to the executor holds the
  entries of the batch's wait list, its completion task is the batch's issue command
  (the new tail, whose completion task is the retire command) and its arena is the arena
  of the batch's retire command.
\<close>

theorem wait_cmd_enqueues_in_order:
  assumes "semaphore_list_ok (wait_semaphores cmd)"
  shows "(let timepoints =
            map (\<lambda>(s, v). Semaphore_enqueue_timepoint s v
                            (completion_task (wait_task cmd)) (wait_arena cmd))
              (semaphore_list_entries (wait_semaphores cmd)) in
     ((\<forall>j < length timepoints. env (calls w @ take j timepoints) (timepoints ! j) = iree_ok_status) \<longrightarrow>
        iree_hal_task_queue_wait_cmd env cmd w =
          (iree_ok_status, w\<lparr>calls := calls w @ timepoints\<rparr>)) \<and>
     (k < length timepoints \<and>
      (\<forall>j < k. env (calls w @ take j timepoints) (timepoints ! j) = iree_ok_status) \<and>
      env (calls w @ take k timepoints) (timepoints ! k) = Inl e \<longrightarrow>
        iree_hal_task_queue_wait_cmd env cmd w =
          (Inl e, w\<lparr>calls := calls w @ take (Suc k) timepoints\<rparr>))) \<and>
     (world_ok w0 \<and> semaphore_list_ok (batch_wait_semaphores b) \<and>
      0 < count (batch_wait_semaphores b) \<and>
      iree_hal_task_queue_submit_batch env0 b w0 = (iree_ok_status, w1) \<longrightarrow>
        (\<exists>wait wcmd issue icmd retire rcmd.
            last (calls w1) = Executor_submit [wait] \<and>
            heap w1 wait = Some (Wait_obj wcmd) \<and>
            closure_fn (wait_task wcmd) = Some Wait_cmd_fn \<and>
            completion_task (wait_task wcmd) = Some issue \<and>
            heap w1 issue = Some (Issue_obj icmd) \<and>
            tail_issue_task w1 = Some issue \<and>
            completion_task (issue_task icmd) = Some retire \<and>
            heap w1 retire = Some (Retire_obj rcmd) \<and>
            wait_arena wcmd = retire_arena rcmd \<and>
            semaphore_list_ok (wait_semaphores wcmd) \<and>
            semaphore_list_entries (wait_semaphores wcmd) =
              semaphore_list_entries (batch_wait_semaphores b)))"
proof -
  have run: "(let timepoints =
            map (\<lambda>(s, v). Semaphore_enqueue_timepoint s v
                            (completion_task (wait_task cmd)) (wait_arena cmd))
              (semaphore_list_entries (wait_semaphores cmd)) in
     ((\<forall>j < length timepoints. env (calls w @ take j timepoints) (timepoints ! j) = iree_ok_status) \<longrightarrow>
        iree_hal_task_queue_wait_cmd env cmd w =
          (iree_ok_status, w\<lparr>calls := calls w @ timepoints\<rparr>)) \<and>
     (k < length timepoints \<and>
      (\<forall>j < k. env (calls w @ take j timepoints) (timepoints ! j) = iree_ok_status) \<and>
      env (calls w @ take k timepoints) (timepoints ! k) = Inl e \<longrightarrow>
        iree_hal_task_queue_wait_cmd env cmd w =
          (Inl e, w\<lparr>calls := calls w @ take (Suc k) timepoints\<rparr>)))"
    unfolding Let_def wait_cmd_eq[OF assms]
    using call_until_error_all_ok call_until_error_first_error
    by blast
  show ?thesis
    using run submit_batch_wait_link by blast
qed


theorem wait_cmd_enqueues_in_order_witness:
  "(let cmd = \<lparr>wait_task = \<lparr>closure_fn = Some Wait_cmd_fn, completion_task = Some 5,
                              cleanup_fn = Some Wait_cmd_cleanup_fn\<rparr>,
               wait_arena = 0,
               wait_semaphores = \<lparr>count = 2, semaphores = [7, 8], payload_values = [5, 6]\<rparr>\<rparr>;
        tp1 = Semaphore_enqueue_timepoint 7 5 (Some 5) 0;
        tp2 = Semaphore_enqueue_timepoint 8 6 (Some 5) 0;
        env_ok = (\<lambda>h c. iree_ok_status);
        env_fail = (\<lambda>h c. if c = tp2 then Inl (Error 3) else iree_ok_status);
        b = \<lparr>batch_wait_semaphores = \<lparr>count = 2, semaphores = [7, 8], payload_values = [5, 6]\<rparr>,
             batch_signal_semaphores = \<lparr>count = 1, semaphores = [9], payload_values = [1]\<rparr>,
             batch_command_buffer_count = 1, batch_command_buffers = [4]\<rparr>;
        w = iree_hal_task_queue_initialize;
        w1 = snd (iree_hal_task_queue_submit_batch env_ok b w)
    in semaphore_list_ok (wait_semaphores cmd) \<and>
       iree_hal_task_queue_wait_cmd env_ok cmd w = (iree_ok_status, w\<lparr>calls := [tp1, tp2]\<rparr>) \<and>
       env_fail [] tp1 = iree_ok_status \<and> env_fail [tp1] tp2 = Inl (Error 3) \<and>
       iree_hal_task_queue_wait_cmd env_fail cmd w = (Inl (Error 3), w\<lparr>calls := [tp1, tp2]\<rparr>) \<and>
       world_ok w \<and> semaphore_list_ok (batch_wait_semaphores b) \<and>
       iree_hal_task_queue_submit_batch env_ok b w = (iree_ok_status, w1) \<and>
       last (calls w1) = Executor_submit [3] \<and> heap w1 3 = Some (Wait_obj cmd) \<and>
       tail_issue_task w1 = Some 5)"
proof -
  let ?cmd = "\<lparr>wait_task = \<lparr>closure_fn = Some Wait_cmd_fn, completion_task = Some 5,
                              cleanup_fn = Some Wait_cmd_cleanup_fn\<rparr>,
               wait_arena = 0,
               wait_semaphores = \<lparr>count = 2, semaphores = [7, 8], payload_values = [5, 6]\<rparr>\<rparr>"
  let ?env_ok = "\<lambda>(h::call list) (c::call). iree_ok_status"
  let ?env_fail = "\<lambda>(h::call list) c. if c = Semaphore_enqueue_timepoint 8 6 (Some 5) 0
                     then Inl (Error 3) else iree_ok_status"
  let ?b = "\<lparr>batch_wait_semaphores = \<lparr>count = 2, semaphores = [7, 8], payload_values = [5, 6]\<rparr>,
             batch_signal_semaphores = \<lparr>count = 1, semaphores = [9], payload_values = [1]\<rparr>,
             batch_command_buffer_count = 1, batch_command_buffers = [4]\<rparr>"
  let ?w = iree_hal_task_queue_initialize
  have wf: "semaphore_list_ok (wait_semaphores ?cmd)"
    by (simp add: semaphore_list_ok_def)
  have sub: "iree_hal_task_queue_submit_batch ?env_ok ?b ?w =
              (iree_ok_status, snd (iree_hal_task_queue_submit_batch ?env_ok ?b ?w))"
    "last (calls (snd (iree_hal_task_queue_submit_batch ?env_ok ?b ?w))) = Executor_submit [3]"
    "heap (snd (iree_hal_task_queue_submit_batch ?env_ok ?b ?w)) 3 = Some (Wait_obj ?cmd)"
    "tail_issue_task (snd (iree_hal_task_queue_submit_batch ?env_ok ?b ?w)) = Some 5"
    by (simp_all add: exec_defs iree_hal_task_queue_initialize_def cloned_list_def upt_rec)
  show ?thesis
    using wait_cmd_enqueues_in_order[OF wf, where env = ?env_ok and w = ?w and k = 0 and e = "Error 3"
        and ?w0.0 = ?w and b = ?b and ?env0.0 = ?env_ok
        and ?w1.0 = "snd (iree_hal_task_queue_submit_batch ?env_ok ?b ?w)"]
      wait_cmd_enqueues_in_order[OF wf, where env = ?env_fail and w = ?w and k = 1 and e = "Error 3"
        and ?w0.0 = ?w and b = ?b and ?env0.0 = ?env_ok
        and ?w1.0 = "snd (iree_hal_task_queue_submit_batch ?env_ok ?b ?w)"]
      sub world_ok_initialize
    by (simp add: Let_def semaphore_list_ok_def semaphore_list_entries_def
        iree_hal_task_queue_initialize_def)
qed

subsection \<open>A batch with no command buffers\<close>

lemma submit_batch_all_ok:
  "(\<And>h c. env h c = iree_ok_status) \<Longrightarrow> fst (iree_hal_task_queue_submit_batch env b w) = iree_ok_status"
  by (simp add: exec_defs')

lemma issue_cmd_empty:
  "command_buffer_count cmd = 0 \<Longrightarrow> iree_hal_task_queue_issue_cmd env cmd w = (iree_ok_status, w)"
  by (simp add: iree_hal_task_queue_issue_cmd_def)

lemma submit_batch_issue_link:
  assumes ok: "world_ok w"
      and sb: "iree_hal_task_queue_submit_batch env b w = (iree_ok_status, w')"
  shows "\<exists>issue icmd retire rcmd.
            tail_issue_task w' = Some issue \<and>
            heap w' issue = Some (Issue_obj icmd) \<and>
            closure_fn (issue_task icmd) = Some Issue_cmd_fn \<and>
            command_buffer_count icmd = batch_command_buffer_count b \<and>
            command_buffers icmd = take (batch_command_buffer_count b) (batch_command_buffers b) \<and>
            completion_task (issue_task icmd) = Some retire \<and>
            heap w' retire = Some (Retire_obj rcmd) \<and>
            closure_fn (retire_task rcmd) = Some Retire_cmd_fn \<and>
            cleanup_fn (retire_task rcmd) = Some Retire_cmd_cleanup_fn \<and>
            retire_arena rcmd = issue_arena icmd \<and>
            signal_semaphores rcmd = cloned_list (batch_signal_semaphores b)"
proof -
  have tail: "tail_issue_task w' = Some (issue_ref b w)"
    using submit_batch_tail[where env = env and b = b and w = w] sb by simp
  note new = submit_batch_new_objects[where w=w and env=env and b=b, OF world_ok_tail_below[OF ok]]
  show ?thesis
    apply (rule exI[of _ "issue_ref b w"])
    apply (rule exI[of _ "\<lparr>issue_task = \<lparr>closure_fn = Some Issue_cmd_fn, completion_task = Some (next_ref w),
                          cleanup_fn = Some Issue_cmd_cleanup_fn\<rparr>,
           issue_arena = next_ref w,
           command_buffer_count = batch_command_buffer_count b,
           command_buffers = take (batch_command_buffer_count b) (batch_command_buffers b)\<rparr>"])
    apply (rule exI[of _ "next_ref w"])
    apply (rule exI[of _ "\<lparr>retire_task = \<lparr>closure_fn = Some Retire_cmd_fn, completion_task = Some (next_ref w + 2),
                           cleanup_fn = Some Retire_cmd_cleanup_fn\<rparr>,
           retire_arena = next_ref w,
           signal_semaphores = cloned_list (batch_signal_semaphores b)\<rparr>"])
    using tail new sb
    apply simp
    done
qed

text \<open>
  A batch with zero command buffers, up to the return of \<open>submit_batch\<close>: the
  command-buffer count is never a reason to refuse a batch (when every external call
  answers ok, the submission returns ok). An issue command with zero command buffers
  makes no call and returns ok. When such a batch has been submitted, the new tail is its
  issue command, with count zero, and at that moment the completion task of that issue
  command is the batch's retire command, as the allocation of the issue command set it.
\<close>

lemma empty_batch_at_return:
  "((\<forall>h c. env h c = iree_ok_status) \<longrightarrow>
      fst (iree_hal_task_queue_submit_batch env b w) = iree_ok_status) \<and>
   (command_buffer_count cmd = 0 \<longrightarrow>
      iree_hal_task_queue_issue_cmd env1 cmd w1 = (iree_ok_status, w1)) \<and>
   (world_ok w \<and> batch_command_buffer_count b = 0 \<and>
    iree_hal_task_queue_submit_batch env b w = (iree_ok_status, w') \<longrightarrow>
      (\<exists>issue icmd retire rcmd.
          tail_issue_task w' = Some issue \<and>
          heap w' issue = Some (Issue_obj icmd) \<and>
          closure_fn (issue_task icmd) = Some Issue_cmd_fn \<and>
          command_buffer_count icmd = 0 \<and>
          completion_task (issue_task icmd) = Some retire \<and>
          heap w' retire = Some (Retire_obj rcmd) \<and>
          closure_fn (retire_task rcmd) = Some Retire_cmd_fn \<and>
          (\<forall>env2 w2. iree_hal_task_queue_issue_cmd env2 icmd w2 = (iree_ok_status, w2))))"
proof (intro conjI impI)
  assume "\<forall>h c. env h c = iree_ok_status"
  then show "fst (iree_hal_task_queue_submit_batch env b w) = iree_ok_status"
    using submit_batch_all_ok by blast
next
  assume "command_buffer_count cmd = 0"
  then show "iree_hal_task_queue_issue_cmd env1 cmd w1 = (iree_ok_status, w1)"
    by (rule issue_cmd_empty)
next
  assume a: "world_ok w \<and> batch_command_buffer_count b = 0 \<and>
    iree_hal_task_queue_submit_batch env b w = (iree_ok_status, w')"
  from submit_batch_issue_link[of w env b w'] a
  obtain issue icmd retire rcmd where f:
    "tail_issue_task w' = Some issue" "heap w' issue = Some (Issue_obj icmd)"
    "closure_fn (issue_task icmd) = Some Issue_cmd_fn"
    "command_buffer_count icmd = batch_command_buffer_count b"
    "completion_task (issue_task icmd) = Some retire"
    "heap w' retire = Some (Retire_obj rcmd)"
    "closure_fn (retire_task rcmd) = Some Retire_cmd_fn"
    by blast
  have z: "command_buffer_count icmd = 0" using f(4) a by simp
  have "\<forall>env2 w2. iree_hal_task_queue_issue_cmd env2 icmd w2 = (iree_ok_status, w2)"
    using issue_cmd_empty[OF z] by blast
  with f z show "\<exists>issue icmd retire rcmd.
          tail_issue_task w' = Some issue \<and>
          heap w' issue = Some (Issue_obj icmd) \<and>
          closure_fn (issue_task icmd) = Some Issue_cmd_fn \<and>
          command_buffer_count icmd = 0 \<and>
          completion_task (issue_task icmd) = Some retire \<and>
          heap w' retire = Some (Retire_obj rcmd) \<and>
          closure_fn (retire_task rcmd) = Some Retire_cmd_fn \<and>
          (\<forall>env2 w2. iree_hal_task_queue_issue_cmd env2 icmd w2 = (iree_ok_status, w2))"
    by blast
qed

lemma empty_batch_at_return_example:
  "(let env = (\<lambda>h c. iree_ok_status);
        b = \<lparr>batch_wait_semaphores = \<lparr>count = 0, semaphores = [], payload_values = []\<rparr>,
             batch_signal_semaphores = \<lparr>count = 1, semaphores = [9], payload_values = [1]\<rparr>,
             batch_command_buffer_count = 0, batch_command_buffers = []\<rparr>;
        w = iree_hal_task_queue_initialize;
        w' = snd (iree_hal_task_queue_submit_batch env b w);
        icmd = \<lparr>issue_task = \<lparr>closure_fn = Some Issue_cmd_fn, completion_task = Some 0,
                                cleanup_fn = Some Issue_cmd_cleanup_fn\<rparr>,
                issue_arena = 0, command_buffer_count = 0, command_buffers = []\<rparr>
    in (\<forall>h c. env h c = iree_ok_status) \<and> world_ok w \<and> batch_command_buffer_count b = 0 \<and>
       command_buffer_count icmd = 0 \<and>
       iree_hal_task_queue_submit_batch env b w = (iree_ok_status, w') \<and>
       tail_issue_task w' = Some 3 \<and> heap w' 3 = Some (Issue_obj icmd) \<and>
       (\<exists>rcmd. heap w' 0 = Some (Retire_obj rcmd) \<and> closure_fn (retire_task rcmd) = Some Retire_cmd_fn) \<and>
       iree_hal_task_queue_issue_cmd env icmd w' = (iree_ok_status, w'))"
proof -
  let ?env = "\<lambda>(h::call list) (c::call). iree_ok_status"
  let ?b = "\<lparr>batch_wait_semaphores = \<lparr>count = 0, semaphores = [], payload_values = []\<rparr>,
             batch_signal_semaphores = \<lparr>count = 1, semaphores = [9], payload_values = [1]\<rparr>,
             batch_command_buffer_count = 0, batch_command_buffers = []\<rparr>"
  let ?w = iree_hal_task_queue_initialize
  let ?w' = "snd (iree_hal_task_queue_submit_batch ?env ?b ?w)"
  let ?icmd = "\<lparr>issue_task = \<lparr>closure_fn = Some Issue_cmd_fn, completion_task = Some 0,
                                cleanup_fn = Some Issue_cmd_cleanup_fn\<rparr>,
                issue_arena = 0, command_buffer_count = 0, command_buffers = []\<rparr>"
  have sub: "iree_hal_task_queue_submit_batch ?env ?b ?w = (iree_ok_status, ?w')"
    "tail_issue_task ?w' = Some 3" "heap ?w' 3 = Some (Issue_obj ?icmd)"
    "\<exists>rcmd. heap ?w' 0 = Some (Retire_obj rcmd) \<and> closure_fn (retire_task rcmd) = Some Retire_cmd_fn"
    by (simp_all add: exec_defs iree_hal_task_queue_initialize_def)
  show ?thesis
    using empty_batch_at_return[where env = ?env and b = ?b and w = ?w and w' = ?w'
        and cmd = ?icmd and ?env1.0 = ?env and ?w1.0 = ?w'] sub world_ok_initialize
    by (simp add: Let_def)
qed

text \<open>
  The edge from an issue command to its retire command does not outlast the next
  submission. When a second batch is submitted while the issue command of the first is
  still the queue's tail, \<open>submit_batch\<close> sets the completion task of that issue
  command again, to the issue command of the second batch, which is not the retire
  command of the first.
\<close>

lemma submit_batch_replaces_retire_edge:
  assumes ok: "world_ok w"
      and sb1: "iree_hal_task_queue_submit_batch env1 b1 w = (iree_ok_status, w1)"
      and sb2: "iree_hal_task_queue_submit_batch env2 b2 w1 = (iree_ok_status, w2)"
  shows "completion_edge w1 (issue_ref b1 w) = Some (next_ref w)"
    and "completion_edge w2 (issue_ref b1 w) = Some (issue_ref b2 w1)"
    and "issue_ref b2 w1 \<noteq> next_ref w"
proof -
  have new: "heap w1 (issue_ref b1 w) = Some (Issue_obj
          \<lparr>issue_task = \<lparr>closure_fn = Some Issue_cmd_fn, completion_task = Some (next_ref w),
                          cleanup_fn = Some Issue_cmd_cleanup_fn\<rparr>,
           issue_arena = next_ref w,
           command_buffer_count = batch_command_buffer_count b1,
           command_buffers = take (batch_command_buffer_count b1) (batch_command_buffers b1)\<rparr>)"
    using submit_batch_new_objects[where w=w and env=env1 and b=b1, OF world_ok_tail_below[OF ok]] sb1
    by simp
  have tail: "tail_issue_task w1 = Some (issue_ref b1 w)" "next_ref w1 = Suc (issue_ref b1 w)"
    using submit_batch_tail[where w=w and env=env1 and b=b1] sb1 by simp_all
  have old: "\<forall>t < next_ref w1. heap w2 t =
          (if tail_issue_task w1 = Some t
           then map_option (\<lambda>ob. set_header ((header_of ob)\<lparr>completion_task := Some (issue_ref b2 w1)\<rparr>) ob) (heap w1 t)
           else heap w1 t)"
    using submit_batch_old_objects[where w=w1 and env=env2 and b=b2] sb2 by simp
  show "completion_edge w1 (issue_ref b1 w) = Some (next_ref w)"
    using new by (simp add: completion_edge_def)
  show "completion_edge w2 (issue_ref b1 w) = Some (issue_ref b2 w1)"
    using old tail new by (simp add: completion_edge_def)
  show "issue_ref b2 w1 \<noteq> next_ref w"
    using tail by (simp add: issue_ref_def)
qed


subsection \<open>The retire task's cleanup\<close>

lemma retire_cmd_cleanup_eq:
  assumes "semaphore_list_ok (signal_semaphores cmd)"
  shows "iree_hal_task_queue_retire_cmd_cleanup cmd status w =
     w\<lparr>calls := calls w @
          (if iree_status_is_ok status then []
           else map (\<lambda>s. Semaphore_fail s status)
                  (take (count (signal_semaphores cmd)) (semaphores (signal_semaphores cmd)))) @
          map Semaphore_release
            (take (count (signal_semaphores cmd)) (semaphores (signal_semaphores cmd))) @
          [Arena_deinitialize (retire_arena cmd)]\<rparr>"
proof -
  have le: "count (signal_semaphores cmd) \<le> length (semaphores (signal_semaphores cmd))"
    using assms by (simp add: semaphore_list_ok_def)
  show ?thesis
    by (simp add: iree_hal_task_queue_retire_cmd_cleanup_def fail_loop_eq release_eq[OF le]
        map_nth_upt_take[OF le, where f = "\<lambda>s. Semaphore_fail s status"]
        iree_arena_deinitialize_def ext_void_def iree_status_clone_def)
qed

text \<open>
  Claim C4. When the retire cleanup is called with a status that is not ok, the calls it
  makes are, in this order: \<open>fail\<close> with a clone of that status on every semaphore of
  the command's signal list (all of them, whatever the run function signalled before),
  then the release of every semaphore of the list, then the deinitialization of the
  arena. The signal list of the retire command of a submitted batch holds the semaphores
  of the batch's signal list.
\<close>

theorem retire_cmd_cleanup_fails_all:
  "(semaphore_list_ok (signal_semaphores cmd) \<and> \<not> iree_status_is_ok status \<longrightarrow>
      (let sems = take (count (signal_semaphores cmd)) (semaphores (signal_semaphores cmd)) in
       iree_hal_task_queue_retire_cmd_cleanup cmd status w =
         w\<lparr>calls := calls w @ map (\<lambda>s. Semaphore_fail s (iree_status_clone status)) sems @
                      map Semaphore_release sems @
                      [Arena_deinitialize (retire_arena cmd)]\<rparr>)) \<and>
   (world_ok w0 \<and> semaphore_list_ok (batch_signal_semaphores b) \<and>
    iree_hal_task_queue_submit_batch env b w0 = (iree_ok_status, w1) \<longrightarrow>
      (\<exists>retire rcmd.
          heap w0 retire = None \<and> heap w1 retire = Some (Retire_obj rcmd) \<and>
          cleanup_fn (retire_task rcmd) = Some Retire_cmd_cleanup_fn \<and>
          semaphore_list_ok (signal_semaphores rcmd) \<and>
          take (count (signal_semaphores rcmd)) (semaphores (signal_semaphores rcmd)) =
            take (count (batch_signal_semaphores b)) (semaphores (batch_signal_semaphores b))))"
proof (intro conjI impI)
  assume "semaphore_list_ok (signal_semaphores cmd) \<and> \<not> iree_status_is_ok status"
  then show "(let sems = take (count (signal_semaphores cmd)) (semaphores (signal_semaphores cmd)) in
       iree_hal_task_queue_retire_cmd_cleanup cmd status w =
         w\<lparr>calls := calls w @ map (\<lambda>s. Semaphore_fail s (iree_status_clone status)) sems @
                      map Semaphore_release sems @
                      [Arena_deinitialize (retire_arena cmd)]\<rparr>)"
    by (simp add: retire_cmd_cleanup_eq Let_def iree_status_clone_def)
next
  assume a: "world_ok w0 \<and> semaphore_list_ok (batch_signal_semaphores b) \<and>
    iree_hal_task_queue_submit_batch env b w0 = (iree_ok_status, w1)"
  then have ok: "world_ok w0" and wf: "semaphore_list_ok (batch_signal_semaphores b)"
    and sb: "iree_hal_task_queue_submit_batch env b w0 = (iree_ok_status, w1)"
    by simp_all
  have fresh: "heap w0 (next_ref w0) = None"
    using ok by (intro heap_ok_fresh) (simp_all add: world_ok_def)
  note new = submit_batch_new_objects[where w=w0 and env=env and b=b, OF world_ok_tail_below[OF ok]]
  show "\<exists>retire rcmd.
          heap w0 retire = None \<and> heap w1 retire = Some (Retire_obj rcmd) \<and>
          cleanup_fn (retire_task rcmd) = Some Retire_cmd_cleanup_fn \<and>
          semaphore_list_ok (signal_semaphores rcmd) \<and>
          take (count (signal_semaphores rcmd)) (semaphores (signal_semaphores rcmd)) =
            take (count (batch_signal_semaphores b)) (semaphores (batch_signal_semaphores b))"
    apply (rule exI[of _ "next_ref w0"])
    apply (rule exI[of _ "\<lparr>retire_task = \<lparr>closure_fn = Some Retire_cmd_fn, completion_task = Some (next_ref w0 + 2),
                           cleanup_fn = Some Retire_cmd_cleanup_fn\<rparr>,
           retire_arena = next_ref w0,
           signal_semaphores = cloned_list (batch_signal_semaphores b)\<rparr>"])
    using new sb fresh cloned_list_ok[OF wf]
    apply simp
    done
qed

theorem retire_cmd_cleanup_fails_all_witness:
  "(let cmd = \<lparr>retire_task = \<lparr>closure_fn = Some Retire_cmd_fn, completion_task = Some 2,
                                cleanup_fn = Some Retire_cmd_cleanup_fn\<rparr>,
               retire_arena = 0,
               signal_semaphores = \<lparr>count = 2, semaphores = [9, 10], payload_values = [1, 2]\<rparr>\<rparr>;
        status = Inl (Error 13);
        env = (\<lambda>h c. iree_ok_status);
        b = \<lparr>batch_wait_semaphores = \<lparr>count = 0, semaphores = [], payload_values = []\<rparr>,
             batch_signal_semaphores = \<lparr>count = 2, semaphores = [9, 10], payload_values = [1, 2]\<rparr>,
             batch_command_buffer_count = 1, batch_command_buffers = [4]\<rparr>;
        w0 = iree_hal_task_queue_initialize;
        w1 = snd (iree_hal_task_queue_submit_batch env b w0)
    in semaphore_list_ok (signal_semaphores cmd) \<and> \<not> iree_status_is_ok status \<and>
       world_ok w0 \<and> semaphore_list_ok (batch_signal_semaphores b) \<and>
       iree_hal_task_queue_submit_batch env b w0 = (iree_ok_status, w1) \<and>
       heap w1 0 = Some (Retire_obj cmd) \<and>
       calls (iree_hal_task_queue_retire_cmd_cleanup cmd status w1) =
         calls w1 @ [Semaphore_fail 9 status, Semaphore_fail 10 status,
                     Semaphore_release 9, Semaphore_release 10, Arena_deinitialize 0])"
proof -
  let ?cmd = "\<lparr>retire_task = \<lparr>closure_fn = Some Retire_cmd_fn, completion_task = Some 2,
                                cleanup_fn = Some Retire_cmd_cleanup_fn\<rparr>,
               retire_arena = 0,
               signal_semaphores = \<lparr>count = 2, semaphores = [9, 10], payload_values = [1, 2]\<rparr>\<rparr>"
  let ?env = "\<lambda>(h::call list) (c::call). iree_ok_status"
  let ?b = "\<lparr>batch_wait_semaphores = \<lparr>count = 0, semaphores = [], payload_values = []\<rparr>,
             batch_signal_semaphores = \<lparr>count = 2, semaphores = [9, 10], payload_values = [1, 2]\<rparr>,
             batch_command_buffer_count = 1, batch_command_buffers = [4]\<rparr>"
  let ?w0 = iree_hal_task_queue_initialize
  let ?w1 = "snd (iree_hal_task_queue_submit_batch ?env ?b ?w0)"
  have sub: "iree_hal_task_queue_submit_batch ?env ?b ?w0 = (iree_ok_status, ?w1)"
    "heap ?w1 0 = Some (Retire_obj ?cmd)"
    by (simp_all add: exec_defs iree_hal_task_queue_initialize_def cloned_list_def upt_rec)
  show ?thesis
    using retire_cmd_cleanup_fails_all[where cmd = ?cmd and status = "Inl (Error 13)" and w = ?w1
        and ?w0.0 = ?w0 and b = ?b and env = ?env and ?w1.0 = ?w1] sub world_ok_initialize
    by (simp add: Let_def semaphore_list_ok_def iree_status_clone_def)
qed

subsection \<open>The retire task's run function\<close>

text \<open>
  Claim C5. The retire task's run function signals the entries of its signal list in
  list order, each semaphore to its payload value. When every signal returns ok the
  function returns ok and has made all the signals. When the signal of entry \<open>k\<close> is
  the first that returns an error, the function returns that error; the calls made are
  the signals of entries \<open>0 .. k\<close> and nothing else, so the earlier signals stand and
  no later entry is signalled. The signal list of the retire command of a submitted batch
  holds the entries of the batch's signal list.
\<close>

theorem retire_cmd_signals_in_order:
  assumes "semaphore_list_ok (signal_semaphores cmd)"
  shows "(let signals = map (\<lambda>(s, v). Semaphore_signal s v)
                          (semaphore_list_entries (signal_semaphores cmd)) in
     ((\<forall>j < length signals. env (calls w @ take j signals) (signals ! j) = iree_ok_status) \<longrightarrow>
        iree_hal_task_queue_retire_cmd env cmd w =
          (iree_ok_status, w\<lparr>calls := calls w @ signals\<rparr>)) \<and>
     (k < length signals \<and>
      (\<forall>j < k. env (calls w @ take j signals) (signals ! j) = iree_ok_status) \<and>
      env (calls w @ take k signals) (signals ! k) = Inl e \<longrightarrow>
        iree_hal_task_queue_retire_cmd env cmd w =
          (Inl e, w\<lparr>calls := calls w @ take (Suc k) signals\<rparr>))) \<and>
     (world_ok w0 \<and> semaphore_list_ok (batch_signal_semaphores b) \<and>
      iree_hal_task_queue_submit_batch env0 b w0 = (iree_ok_status, w1) \<longrightarrow>
        (\<exists>retire rcmd.
            heap w1 retire = Some (Retire_obj rcmd) \<and>
            closure_fn (retire_task rcmd) = Some Retire_cmd_fn \<and>
            semaphore_list_ok (signal_semaphores rcmd) \<and>
            semaphore_list_entries (signal_semaphores rcmd) =
              semaphore_list_entries (batch_signal_semaphores b)))"
proof -
  have run: "(let signals = map (\<lambda>(s, v). Semaphore_signal s v)
                          (semaphore_list_entries (signal_semaphores cmd)) in
     ((\<forall>j < length signals. env (calls w @ take j signals) (signals ! j) = iree_ok_status) \<longrightarrow>
        iree_hal_task_queue_retire_cmd env cmd w =
          (iree_ok_status, w\<lparr>calls := calls w @ signals\<rparr>)) \<and>
     (k < length signals \<and>
      (\<forall>j < k. env (calls w @ take j signals) (signals ! j) = iree_ok_status) \<and>
      env (calls w @ take k signals) (signals ! k) = Inl e \<longrightarrow>
        iree_hal_task_queue_retire_cmd env cmd w =
          (Inl e, w\<lparr>calls := calls w @ take (Suc k) signals\<rparr>)))"
    unfolding Let_def retire_cmd_eq[OF assms]
    using call_until_error_all_ok call_until_error_first_error
    by blast
  have link: "\<exists>retire rcmd.
            heap w1 retire = Some (Retire_obj rcmd) \<and>
            closure_fn (retire_task rcmd) = Some Retire_cmd_fn \<and>
            semaphore_list_ok (signal_semaphores rcmd) \<and>
            semaphore_list_entries (signal_semaphores rcmd) =
              semaphore_list_entries (batch_signal_semaphores b)"
    if ok: "world_ok w0" and wf: "semaphore_list_ok (batch_signal_semaphores b)"
      and sb: "iree_hal_task_queue_submit_batch env0 b w0 = (iree_ok_status, w1)"
  proof -
    from submit_batch_issue_link[OF ok sb]
    obtain retire rcmd where r: "heap w1 retire = Some (Retire_obj rcmd)"
      "closure_fn (retire_task rcmd) = Some Retire_cmd_fn"
      "signal_semaphores rcmd = cloned_list (batch_signal_semaphores b)"
      by blast
    have "semaphore_list_ok (signal_semaphores rcmd)"
      "semaphore_list_entries (signal_semaphores rcmd) =
         semaphore_list_entries (batch_signal_semaphores b)"
      using r(3) cloned_list_ok[OF wf] by simp_all
    with r(1,2) show ?thesis by blast
  qed
  show ?thesis
    using run link by blast
qed

theorem retire_cmd_signals_in_order_witness:
  "(let cmd = \<lparr>retire_task = \<lparr>closure_fn = Some Retire_cmd_fn, completion_task = Some 2,
                                cleanup_fn = Some Retire_cmd_cleanup_fn\<rparr>,
               retire_arena = 0,
               signal_semaphores = \<lparr>count = 3, semaphores = [5, 6, 7], payload_values = [1, 2, 3]\<rparr>\<rparr>;
        env_ok = (\<lambda>h c. iree_ok_status);
        env = (\<lambda>h c. if c = Semaphore_signal 6 2 then Inl (Error 9) else iree_ok_status);
        b = \<lparr>batch_wait_semaphores = \<lparr>count = 0, semaphores = [], payload_values = []\<rparr>,
             batch_signal_semaphores = \<lparr>count = 3, semaphores = [5, 6, 7], payload_values = [1, 2, 3]\<rparr>,
             batch_command_buffer_count = 1, batch_command_buffers = [4]\<rparr>;
        w = iree_hal_task_queue_initialize;
        w1 = snd (iree_hal_task_queue_submit_batch env_ok b w)
    in semaphore_list_ok (signal_semaphores cmd) \<and>
       iree_hal_task_queue_retire_cmd env_ok cmd w =
         (iree_ok_status, w\<lparr>calls := [Semaphore_signal 5 1, Semaphore_signal 6 2, Semaphore_signal 7 3]\<rparr>) \<and>
       env [] (Semaphore_signal 5 1) = iree_ok_status \<and>
       env [Semaphore_signal 5 1] (Semaphore_signal 6 2) = Inl (Error 9) \<and>
       iree_hal_task_queue_retire_cmd env cmd w =
         (Inl (Error 9), w\<lparr>calls := [Semaphore_signal 5 1, Semaphore_signal 6 2]\<rparr>) \<and>
       world_ok w \<and> semaphore_list_ok (batch_signal_semaphores b) \<and>
       iree_hal_task_queue_submit_batch env_ok b w = (iree_ok_status, w1) \<and>
       heap w1 0 = Some (Retire_obj cmd))"
proof -
  let ?cmd = "\<lparr>retire_task = \<lparr>closure_fn = Some Retire_cmd_fn, completion_task = Some 2,
                                cleanup_fn = Some Retire_cmd_cleanup_fn\<rparr>,
               retire_arena = 0,
               signal_semaphores = \<lparr>count = 3, semaphores = [5, 6, 7], payload_values = [1, 2, 3]\<rparr>\<rparr>"
  let ?env_ok = "\<lambda>(h::call list) (c::call). iree_ok_status"
  let ?env = "\<lambda>(h::call list) c. if c = Semaphore_signal 6 2 then Inl (Error 9) else iree_ok_status"
  let ?b = "\<lparr>batch_wait_semaphores = \<lparr>count = 0, semaphores = [], payload_values = []\<rparr>,
             batch_signal_semaphores = \<lparr>count = 3, semaphores = [5, 6, 7], payload_values = [1, 2, 3]\<rparr>,
             batch_command_buffer_count = 1, batch_command_buffers = [4]\<rparr>"
  let ?w = iree_hal_task_queue_initialize
  let ?w1 = "snd (iree_hal_task_queue_submit_batch ?env_ok ?b ?w)"
  have wf: "semaphore_list_ok (signal_semaphores ?cmd)"
    by (simp add: semaphore_list_ok_def)
  have sub: "iree_hal_task_queue_submit_batch ?env_ok ?b ?w = (iree_ok_status, ?w1)"
    "heap ?w1 0 = Some (Retire_obj ?cmd)"
    by (simp_all add: exec_defs iree_hal_task_queue_initialize_def cloned_list_def upt_rec)
  show ?thesis
    using retire_cmd_signals_in_order[OF wf, where env = ?env_ok and w = ?w and k = 0 and e = "Error 9"
        and ?w0.0 = ?w and b = ?b and ?env0.0 = ?env_ok and ?w1.0 = ?w1]
      retire_cmd_signals_in_order[OF wf, where env = ?env and w = ?w and k = 1 and e = "Error 9"
        and ?w0.0 = ?w and b = ?b and ?env0.0 = ?env_ok and ?w1.0 = ?w1]
      sub world_ok_initialize
    by (simp add: Let_def semaphore_list_ok_def semaphore_list_entries_def
        iree_hal_task_queue_initialize_def)
qed

subsection \<open>Submitting a list of batches\<close>

lemma submit_loop_eq:
  "batch_count \<le> length batches \<Longrightarrow>
   iree_hal_task_queue_submit_loop env batch_count batches i w =
     submit_batches env (drop i (take batch_count batches)) w"
proof (induction env batch_count batches i w rule: iree_hal_task_queue_submit_loop.induct)
  case (1 env batch_count batches i w)
  show ?case
  proof (cases "i < batch_count")
    case True
    have d: "drop i (take batch_count batches) = batches ! i # drop (Suc i) (take batch_count batches)"
      using True 1(2) by (simp add: Cons_nth_drop_Suc[symmetric])
    show ?thesis
      apply (subst iree_hal_task_queue_submit_loop.simps)
      using True 1(1)[OF True] 1(2)
      apply (simp add: d split: prod.splits sum.splits)
      done
  next
    case False
    then show ?thesis
      by (subst iree_hal_task_queue_submit_loop.simps) simp
  qed
qed

lemma world_after_Cons [simp]:
  "world_after env (b # bs) w = world_after env bs (snd (iree_hal_task_queue_submit_batch env b w))"
  by (simp add: world_after_def)

lemma world_after_Nil [simp]: "world_after env [] w = w"
  by (simp add: world_after_def)

lemma submit_batches_all_ok:
  "(\<And>j. j < length bs \<Longrightarrow>
      fst (iree_hal_task_queue_submit_batch env (bs ! j) (world_after env (take j bs) w)) = iree_ok_status) \<Longrightarrow>
   submit_batches env bs w = (iree_ok_status, world_after env bs w)"
proof (induction bs arbitrary: w)
  case Nil
  then show ?case by simp
next
  case (Cons b bs)
  have h0: "fst (iree_hal_task_queue_submit_batch env b w) = iree_ok_status"
    using Cons.prems[of 0] by simp
  have hs: "fst (iree_hal_task_queue_submit_batch env (bs ! j)
              (world_after env (take j bs) (snd (iree_hal_task_queue_submit_batch env b w)))) = iree_ok_status"
    if "j < length bs" for j
    using Cons.prems[of "Suc j"] that by simp
  show ?case
    using Cons.IH[OF hs] h0
    by (cases "iree_hal_task_queue_submit_batch env b w") (auto split: sum.splits)
qed

lemma submit_batches_first_error:
  "k < length bs \<Longrightarrow>
   (\<And>j. j < k \<Longrightarrow>
      fst (iree_hal_task_queue_submit_batch env (bs ! j) (world_after env (take j bs) w)) = iree_ok_status) \<Longrightarrow>
   fst (iree_hal_task_queue_submit_batch env (bs ! k) (world_after env (take k bs) w)) = Inl e \<Longrightarrow>
   submit_batches env bs w = (Inl e, world_after env (take (Suc k) bs) w)"
proof (induction bs arbitrary: w k)
  case Nil
  then show ?case by simp
next
  case (Cons b bs)
  show ?case
  proof (cases k)
    case 0
    then show ?thesis
      using Cons.prems(3)
      by (cases "iree_hal_task_queue_submit_batch env b w") (auto split: sum.splits)
  next
    case (Suc k')
    have h0: "fst (iree_hal_task_queue_submit_batch env b w) = iree_ok_status"
      using Cons.prems(2)[of 0] Suc by simp
    have hs: "fst (iree_hal_task_queue_submit_batch env (bs ! j)
              (world_after env (take j bs) (snd (iree_hal_task_queue_submit_batch env b w)))) = iree_ok_status"
      if "j < k'" for j
      using Cons.prems(2)[of "Suc j"] that Suc by simp
    have he: "fst (iree_hal_task_queue_submit_batch env (bs ! k')
              (world_after env (take k' bs) (snd (iree_hal_task_queue_submit_batch env b w)))) = Inl e"
      using Cons.prems(3) Suc by simp
    have "k' < length bs" using Cons.prems(1) Suc by simp
    from Cons.IH[OF this hs he] h0 Suc
    show ?thesis
      by (cases "iree_hal_task_queue_submit_batch env b w") (auto split: sum.splits)
  qed
qed

lemma submit_batch_no_flush:
  "count_list (calls (snd (iree_hal_task_queue_submit_batch env b w))) Executor_flush =
   count_list (calls w) Executor_flush"
proof (cases "iree_hal_task_queue_submit_batch env b w")
  case (Pair st w')
  show ?thesis
  proof (cases st)
    case (Inl e)
    from submit_batch_fail_calls[where env = env and b = b and w = w] Pair Inl
    obtain pre where pre: "calls w' = calls w @ pre" "list_all setup_call pre"
      by auto
    then show ?thesis using Pair by (simp add: count_list_setup)
  next
    case (Inr u)
    have "calls w' = calls w @ allocation_calls b (next_ref w) @
         [Executor_submit [if 0 < count (batch_wait_semaphores b) then next_ref w + 3
                           else issue_ref b w]]"
      using submit_batch_calls[where env = env and b = b and w = w] Pair Inr by simp
    then show ?thesis
      using Pair by (simp add: count_list_setup[OF allocation_calls_setup])
  qed
qed

lemma world_after_no_flush:
  "count_list (calls (world_after env bs w)) Executor_flush = count_list (calls w) Executor_flush"
  by (induction bs arbitrary: w) (simp_all add: submit_batch_no_flush)

lemma submit_eq:
  "batch_count \<le> length batches \<Longrightarrow>
   iree_hal_task_queue_submit env batch_count batches w =
     (case submit_batches env (take batch_count batches) w of
        (Inl e, w1) \<Rightarrow> (Inl e, w1)
      | (Inr _, w1) \<Rightarrow> (iree_ok_status, iree_task_executor_flush w1))"
  by (simp add: iree_hal_task_queue_submit_def submit_loop_eq)

text \<open>
  Claim C9. \<open>submit\<close> hands its batches to \<open>submit_batch\<close> in order. When every
  batch succeeds it returns ok, and the world is the one after all the batches followed
  by one \<open>flush\<close>: the call adds exactly one flush to the log. When batch \<open>k\<close> is the
  first whose submission fails, \<open>submit\<close> returns that error and the world is the one
  after batches \<open>0 .. k\<close>: no later batch is processed and no flush is added.
\<close>

theorem submit_stops_at_first_error:
  assumes "batch_count \<le> length batches"
  shows "(let bs = take batch_count batches in
     ((\<forall>j < length bs.
          fst (iree_hal_task_queue_submit_batch env (bs ! j) (world_after env (take j bs) w)) =
            iree_ok_status) \<longrightarrow>
        iree_hal_task_queue_submit env batch_count batches w =
          (iree_ok_status, iree_task_executor_flush (world_after env bs w)) \<and>
        count_list (calls (snd (iree_hal_task_queue_submit env batch_count batches w))) Executor_flush =
          count_list (calls w) Executor_flush + 1) \<and>
     (k < length bs \<and>
      (\<forall>j < k.
          fst (iree_hal_task_queue_submit_batch env (bs ! j) (world_after env (take j bs) w)) =
            iree_ok_status) \<and>
      fst (iree_hal_task_queue_submit_batch env (bs ! k) (world_after env (take k bs) w)) = Inl e \<longrightarrow>
        iree_hal_task_queue_submit env batch_count batches w =
          (Inl e, world_after env (take (Suc k) bs) w) \<and>
        count_list (calls (snd (iree_hal_task_queue_submit env batch_count batches w))) Executor_flush =
          count_list (calls w) Executor_flush))"
proof -
  let ?bs = "take batch_count batches"
  have A: "iree_hal_task_queue_submit env batch_count batches w =
          (iree_ok_status, iree_task_executor_flush (world_after env ?bs w)) \<and>
        count_list (calls (snd (iree_hal_task_queue_submit env batch_count batches w))) Executor_flush =
          count_list (calls w) Executor_flush + 1"
    if "\<forall>j < length ?bs.
          fst (iree_hal_task_queue_submit_batch env (?bs ! j) (world_after env (take j ?bs) w)) =
            iree_ok_status"
    using submit_batches_all_ok[of ?bs env w] that
    by (simp add: submit_eq[OF assms] iree_task_executor_flush_def ext_void_def world_after_no_flush)
  have B: "iree_hal_task_queue_submit env batch_count batches w =
          (Inl e, world_after env (take (Suc k) ?bs) w) \<and>
        count_list (calls (snd (iree_hal_task_queue_submit env batch_count batches w))) Executor_flush =
          count_list (calls w) Executor_flush"
    if "k < length ?bs" "\<forall>j < k.
          fst (iree_hal_task_queue_submit_batch env (?bs ! j) (world_after env (take j ?bs) w)) =
            iree_ok_status"
      "fst (iree_hal_task_queue_submit_batch env (?bs ! k) (world_after env (take k ?bs) w)) = Inl e"
    using submit_batches_first_error[of k ?bs env w e] that
    by (simp add: submit_eq[OF assms] world_after_no_flush)
  show ?thesis
    unfolding Let_def using A B by blast
qed


theorem submit_stops_at_first_error_witness:
  "(let ba = \<lparr>batch_wait_semaphores = \<lparr>count = 0, semaphores = [], payload_values = []\<rparr>,
              batch_signal_semaphores = \<lparr>count = 1, semaphores = [9], payload_values = [1]\<rparr>,
              batch_command_buffer_count = 1, batch_command_buffers = [4]\<rparr>;
        bb = \<lparr>batch_wait_semaphores = \<lparr>count = 0, semaphores = [], payload_values = []\<rparr>,
              batch_signal_semaphores = \<lparr>count = 1, semaphores = [9], payload_values = [2]\<rparr>,
              batch_command_buffer_count = 2, batch_command_buffers = [5, 6]\<rparr>;
        env_ok = (\<lambda>h c. iree_ok_status);
        env_fail = (\<lambda>h c. if c = Arena_allocate 4 (Sizeof_issue_cmd 2) then Inl (Error 8)
                            else iree_ok_status);
        w = iree_hal_task_queue_initialize
    in (2::nat) \<le> length [ba, bb] \<and>
       fst (iree_hal_task_queue_submit env_ok 2 [ba, bb] w) = iree_ok_status \<and>
       tail_issue_task (snd (iree_hal_task_queue_submit env_ok 2 [ba, bb] w)) = Some 7 \<and>
       last (calls (snd (iree_hal_task_queue_submit env_ok 2 [ba, bb] w))) = Executor_flush \<and>
       count_list (calls (snd (iree_hal_task_queue_submit env_ok 2 [ba, bb] w))) Executor_flush = 1 \<and>
       fst (iree_hal_task_queue_submit_batch env_fail ba w) = iree_ok_status \<and>
       fst (iree_hal_task_queue_submit_batch env_fail bb (world_after env_fail [ba] w)) = Inl (Error 8) \<and>
       iree_hal_task_queue_submit env_fail 2 [ba, bb, ba] w =
         (Inl (Error 8), world_after env_fail [ba, bb] w) \<and>
       tail_issue_task (snd (iree_hal_task_queue_submit env_fail 2 [ba, bb, ba] w)) = Some 3 \<and>
       count_list (calls (snd (iree_hal_task_queue_submit env_fail 2 [ba, bb, ba] w))) Executor_flush = 0)"
proof -
  let ?ba = "\<lparr>batch_wait_semaphores = \<lparr>count = 0, semaphores = [], payload_values = []\<rparr>,
              batch_signal_semaphores = \<lparr>count = 1, semaphores = [9], payload_values = [1]\<rparr>,
              batch_command_buffer_count = 1, batch_command_buffers = [4]\<rparr>"
  let ?bb = "\<lparr>batch_wait_semaphores = \<lparr>count = 0, semaphores = [], payload_values = []\<rparr>,
              batch_signal_semaphores = \<lparr>count = 1, semaphores = [9], payload_values = [2]\<rparr>,
              batch_command_buffer_count = 2, batch_command_buffers = [5, 6]\<rparr>"
  let ?env_ok = "\<lambda>(h::call list) (c::call). iree_ok_status"
  let ?env_fail = "\<lambda>(h::call list) c. if c = Arena_allocate 4 (Sizeof_issue_cmd 2) then Inl (Error 8)
                            else iree_ok_status"
  let ?w = iree_hal_task_queue_initialize
  have ok_all: "fst (iree_hal_task_queue_submit_batch ?env_ok b w') = iree_ok_status" for b w'
    by (rule submit_batch_all_ok) simp
  have t_ok: "tail_issue_task (world_after ?env_ok [?ba, ?bb] ?w) = Some 7"
    "calls ?w = []"
    by (simp_all add: exec_defs iree_hal_task_queue_initialize_def)
  have f1: "fst (iree_hal_task_queue_submit_batch ?env_fail ?ba ?w) = iree_ok_status"
    by (simp add: exec_defs iree_hal_task_queue_initialize_def)
  have f2: "fst (iree_hal_task_queue_submit_batch ?env_fail ?bb (world_after ?env_fail [?ba] ?w)) = Inl (Error 8)"
    "tail_issue_task (world_after ?env_fail [?ba, ?bb] ?w) = Some 3"
    by (simp_all add: exec_defs iree_hal_task_queue_initialize_def)
  have len: "(2::nat) \<le> length [?ba, ?bb]" "(2::nat) \<le> length [?ba, ?bb, ?ba]"
    by simp_all
  have tk: "take 2 [?ba, ?bb] = [?ba, ?bb]" "take 2 [?ba, ?bb, ?ba] = [?ba, ?bb]"
    by simp_all
  have hyp1: "\<forall>j < length [?ba, ?bb].
      fst (iree_hal_task_queue_submit_batch ?env_ok ([?ba, ?bb] ! j)
            (world_after ?env_ok (take j [?ba, ?bb]) ?w)) = iree_ok_status"
    using ok_all by simp
  have hyp2: "\<forall>j < 1.
      fst (iree_hal_task_queue_submit_batch ?env_fail ([?ba, ?bb] ! j)
            (world_after ?env_fail (take j [?ba, ?bb]) ?w)) = iree_ok_status"
    using f1 by simp
  have hyp3: "fst (iree_hal_task_queue_submit_batch ?env_fail ([?ba, ?bb] ! 1)
            (world_after ?env_fail (take 1 [?ba, ?bb]) ?w)) = Inl (Error 8)"
    using f2(1) by simp
  have c1: "iree_hal_task_queue_submit ?env_ok 2 [?ba, ?bb] ?w =
          (iree_ok_status, iree_task_executor_flush (world_after ?env_ok [?ba, ?bb] ?w))"
    "count_list (calls (snd (iree_hal_task_queue_submit ?env_ok 2 [?ba, ?bb] ?w))) Executor_flush =
          count_list (calls ?w) Executor_flush + 1"
    using submit_stops_at_first_error[OF len(1), where env = ?env_ok and w = ?w and k = 0 and e = "Error 8"]
      hyp1 unfolding Let_def tk by blast+
  have c2: "iree_hal_task_queue_submit ?env_fail 2 [?ba, ?bb, ?ba] ?w =
          (Inl (Error 8), world_after ?env_fail (take (Suc 1) [?ba, ?bb]) ?w)"
    "count_list (calls (snd (iree_hal_task_queue_submit ?env_fail 2 [?ba, ?bb, ?ba] ?w))) Executor_flush =
          count_list (calls ?w) Executor_flush"
    using submit_stops_at_first_error[OF len(2), where env = ?env_fail and w = ?w and k = 1 and e = "Error 8"]
      hyp2 hyp3 unfolding Let_def tk by auto
  show ?thesis
    unfolding Let_def using c1 c2 t_ok f1 f2
    by (simp add: iree_task_executor_flush_def ext_void_def)
qed

subsection \<open>The tail of the queue over every history\<close>

lemma tail_ok_iff:
  "tail_issue_task_ok (w, C) \<longleftrightarrow>
     (\<forall>t. tail_issue_task w = Some t \<longrightarrow> (\<exists>c. heap w t = Some (Issue_obj c)) \<and> t \<notin> C)"
  by (auto simp: tail_issue_task_ok_def split: option.splits obj.splits)

lemma sys_inv_iff:
  "sys_inv (w, C) \<longleftrightarrow>
     heap_ok w \<and> (\<forall>t \<in> C. t < next_ref w) \<and>
     (\<forall>t. tail_issue_task w = Some t \<longrightarrow> (\<exists>c. heap w t = Some (Issue_obj c)) \<and> t \<notin> C)"
  by (simp add: sys_inv_def tail_ok_iff)

lemma call_until_error_frame:
  "heap (snd (call_until_error env cs st w)) = heap w \<and>
   next_ref (snd (call_until_error env cs st w)) = next_ref w \<and>
   tail_issue_task (snd (call_until_error env cs st w)) = tail_issue_task w"
  by (induction cs arbitrary: st w) (auto simp: ext_call_def split: prod.splits)

lemma run_task_frame:
  "heap (run_task env t w) = heap w \<and> next_ref (run_task env t w) = next_ref w \<and>
   tail_issue_task (run_task env t w) = tail_issue_task w"
  by (simp add: run_task_def iree_hal_task_queue_wait_cmd_def iree_hal_task_queue_issue_cmd_def
      iree_hal_task_queue_retire_cmd_def wait_cmd_loop_eq issue_cmd_loop_eq retire_cmd_loop_eq
      call_until_error_frame split: option.split obj.split)

lemma cleanup_task_frame:
  "heap (cleanup_task t status w) = heap w \<and> next_ref (cleanup_task t status w) = next_ref w \<and>
   tail_issue_task (cleanup_task t status w) =
     (case heap w t of
        Some (Issue_obj c) \<Rightarrow> if tail_issue_task w = Some t then None else tail_issue_task w
      | _ \<Rightarrow> tail_issue_task w)"
  by (simp add: cleanup_task_def iree_hal_task_queue_wait_cmd_cleanup_def
      iree_hal_task_queue_issue_cmd_cleanup_def iree_hal_task_queue_retire_cmd_cleanup_def
      iree_hal_semaphore_list_release_def release_loop_eq fail_loop_eq
      iree_arena_deinitialize_def ext_void_def Let_def split: option.split obj.split)

lemma submit_batch_heap_ok:
  assumes "heap_ok w"
  shows "heap_ok (snd (iree_hal_task_queue_submit_batch env b w))"
proof (cases "iree_hal_task_queue_submit_batch env b w")
  case (Pair st w')
  have k: "next_ref w \<le> next_ref w'"
    "\<And>t. heap_kinds (heap w') t = heap_kinds (heap w) t \<or> t < next_ref w'"
    using submit_batch_kinds[where env = env and b = b and w = w] Pair by auto
  have "t < next_ref w'" if "heap w' t \<noteq> None" for t
  proof -
    from k(2)[of t] show ?thesis
    proof
      assume "heap_kinds (heap w') t = heap_kinds (heap w) t"
      then have "heap w t \<noteq> None" using that by (cases "heap w t") (auto simp: heap_kinds_def)
      then have "t < next_ref w" using assms by (auto simp: heap_ok_def)
      then show ?thesis using k(1) by simp
    qed
  qed
  then show ?thesis using Pair by (auto simp: heap_ok_def)
qed

lemma submit_batch_next_ref_mono:
  "next_ref w \<le> next_ref (snd (iree_hal_task_queue_submit_batch env b w))"
  using submit_batch_kinds[where env = env and b = b and w = w]
  by (cases "iree_hal_task_queue_submit_batch env b w") auto

lemma sys_inv_world_ok: "sys_inv (w, cleaned) \<Longrightarrow> world_ok w"
  by (auto simp: sys_inv_iff world_ok_def split: option.splits)

lemma submit_batch_inv:
  assumes "sys_inv (w, cleaned)"
  shows "sys_inv (snd (iree_hal_task_queue_submit_batch env b w), cleaned)"
proof (cases "iree_hal_task_queue_submit_batch env b w")
  case (Pair st w')
  have ok: "world_ok w" using assms by (rule sys_inv_world_ok)
  have hok: "heap_ok w" using assms by (simp add: sys_inv_def)
  have hok': "heap_ok w'"
    using submit_batch_heap_ok[OF hok, of env b] Pair by simp
  have mono: "next_ref w \<le> next_ref w'"
    using submit_batch_next_ref_mono[of w env b] Pair by simp
  have cl: "\<forall>t \<in> cleaned. t < next_ref w'"
    using assms mono by (auto simp: sys_inv_def)
  have tl: "tail_issue_task_ok (w', cleaned)"
  proof (cases st)
    case (Inl e)
    have same: "tail_issue_task w' = tail_issue_task w"
      using submit_batch_tail[where env = env and b = b and w = w] Pair Inl by simp
    have old: "\<forall>t < next_ref w. heap w' t = heap w t"
      using submit_batch_old_objects[where env = env and b = b and w = w] Pair Inl by simp
    show ?thesis
      using assms same old world_ok_tail_below[OF ok]
      by (auto simp: sys_inv_iff tail_ok_iff)
  next
    case (Inr u)
    have sb: "iree_hal_task_queue_submit_batch env b w = (iree_ok_status, w')"
      using Pair Inr by simp
    have tail: "tail_issue_task w' = Some (issue_ref b w)"
      using submit_batch_tail[where env = env and b = b and w = w] sb by simp
    have new: "\<exists>cmd. heap w' (issue_ref b w) = Some (Issue_obj cmd)"
      using submit_batch_new_objects[where w=w and env=env and b=b, OF world_ok_tail_below[OF ok]] sb
      by simp
    have "next_ref w \<le> issue_ref b w" by (simp add: issue_ref_def)
    then have "issue_ref b w \<notin> cleaned"
      using assms by (auto simp: sys_inv_iff)
    then show ?thesis
      using tail new by (auto simp: tail_ok_iff)
  qed
  show ?thesis
    using Pair hok' cl tl by (simp add: sys_inv_def)
qed


lemma submit_loop_inv:
  "sys_inv (w, cleaned) \<Longrightarrow>
   sys_inv (snd (iree_hal_task_queue_submit_loop env batch_count batches i w), cleaned)"
proof (induction env batch_count batches i w rule: iree_hal_task_queue_submit_loop.induct)
  case (1 env batch_count batches i w)
  show ?case
  proof (cases "i < batch_count")
    case True
    obtain st w1 where sb: "iree_hal_task_queue_submit_batch env (batches ! i) w = (st, w1)"
      by (cases "iree_hal_task_queue_submit_batch env (batches ! i) w")
    have inv1: "sys_inv (w1, cleaned)"
      using submit_batch_inv[OF 1(2), of env "batches ! i"] sb by simp
    show ?thesis
    proof (cases st)
      case (Inl e)
      then show ?thesis
        using True sb inv1
        by (subst iree_hal_task_queue_submit_loop.simps) simp
    next
      case (Inr u)
      then show ?thesis
        using True sb 1(1)[OF True sb[symmetric] Inr inv1]
        by (subst iree_hal_task_queue_submit_loop.simps) simp
    qed
  next
    case False
    then show ?thesis
      using 1(2) by (subst iree_hal_task_queue_submit_loop.simps) simp
  qed
qed

lemma sys_inv_frame:
  assumes "sys_inv (w, cleaned)" "heap w' = heap w" "next_ref w' = next_ref w"
    "tail_issue_task w' = tail_issue_task w"
  shows "sys_inv (w', cleaned)"
  using assms by (simp add: sys_inv_iff heap_ok_def)

lemma submit_inv:
  assumes "sys_inv (w, cleaned)"
  shows "sys_inv (snd (iree_hal_task_queue_submit env batch_count batches w), cleaned)"
proof -
  obtain st w1 where l: "iree_hal_task_queue_submit_loop env batch_count batches 0 w = (st, w1)"
    by (cases "iree_hal_task_queue_submit_loop env batch_count batches 0 w")
  have inv1: "sys_inv (w1, cleaned)"
    using submit_loop_inv[OF assms, of env batch_count batches 0] l by simp
  show ?thesis
  proof (cases st)
    case (Inl e)
    then show ?thesis using l inv1 by (simp add: iree_hal_task_queue_submit_def)
  next
    case (Inr u)
    have "sys_inv (iree_task_executor_flush w1, cleaned)"
      by (rule sys_inv_frame[OF inv1]) (simp_all add: iree_task_executor_flush_def ext_void_def)
    then show ?thesis using l Inr by (simp add: iree_hal_task_queue_submit_def)
  qed
qed


lemma step_submit_inv:
  assumes "sys_inv (w, cleaned)"
  shows "sys_inv (step env (w, cleaned) (Submit n bs))"
  using submit_inv[OF assms, of env n bs] by simp

lemma step_run_inv:
  assumes "sys_inv (w, cleaned)"
  shows "sys_inv (step env (w, cleaned) (Run_task t))"
proof -
  have "sys_inv (run_task env t w, cleaned)"
    by (rule sys_inv_frame[OF assms]) (simp_all add: run_task_frame)
  then show ?thesis by simp
qed


lemma step_cleanup_inv:
  assumes inv: "sys_inv (w, cleaned)"
  shows "sys_inv (step env (w, cleaned) (Cleanup_task t status))"
proof (cases "t \<in> cleaned \<or> heap w t = None")
  case True
  then show ?thesis using inv by simp
next
  case False
  then obtain ob where ob: "heap w t = Some ob" and nc: "t \<notin> cleaned" by auto
  have hok: "heap_ok w" and cl: "\<forall>x \<in> cleaned. x < next_ref w"
    and tl: "\<And>x. tail_issue_task w = Some x \<Longrightarrow> (\<exists>c. heap w x = Some (Issue_obj c)) \<and> x \<notin> cleaned"
    using inv by (simp_all add: sys_inv_iff)
  have below: "t < next_ref w"
    using hok ob by (rule heap_ok_below)
  let ?w' = "cleanup_task t status w"
  have fr1: "heap ?w' = heap w" and fr2: "next_ref ?w' = next_ref w"
    using cleanup_task_frame[of t status w] by blast+
  have fr3: "tail_issue_task ?w' = (case ob of Issue_obj c \<Rightarrow>
       if tail_issue_task w = Some t then None else tail_issue_task w | _ \<Rightarrow> tail_issue_task w)"
    using cleanup_task_frame[of t status w] by (simp add: ob)
  have "sys_inv (?w', insert t cleaned)"
    unfolding sys_inv_iff
  proof (intro conjI allI impI ballI)
    show "heap_ok ?w'"
      using hok by (simp add: heap_ok_def fr1 fr2)
  next
    fix x assume "x \<in> insert t cleaned"
    then show "x < next_ref ?w'"
      using cl below by (auto simp: fr2)
  next
    fix x assume tx: "tail_issue_task ?w' = Some x"
    have old: "tail_issue_task w = Some x"
      using tx fr3 by (cases ob) (simp_all split: if_splits)
    from tl[OF old] obtain c where c: "heap w x = Some (Issue_obj c)" and xc: "x \<notin> cleaned"
      by blast
    show "\<exists>c. heap ?w' x = Some (Issue_obj c)"
      using c by (simp add: fr1)
    have "x \<noteq> t"
    proof
      assume "x = t"
      then have "ob = Issue_obj c" using c ob by simp
      then have "tail_issue_task ?w' = None" using fr3 old \<open>x = t\<close> by simp
      then show False using tx by simp
    qed
    then show "x \<notin> insert t cleaned" using xc by simp
  qed
  then show ?thesis using nc ob by simp
qed


lemma step_inv:
  assumes "sys_inv s"
  shows "sys_inv (step env s a)"
proof (cases s)
  case (Pair w cleaned)
  then have inv: "sys_inv (w, cleaned)" using assms by simp
  show ?thesis
    unfolding Pair
    by (cases a) (simp_all only: step_submit_inv[OF inv] step_run_inv[OF inv] step_cleanup_inv[OF inv])
qed

lemma sys_inv_initialize: "sys_inv (iree_hal_task_queue_initialize, {})"
  by (simp add: sys_inv_iff heap_ok_def iree_hal_task_queue_initialize_def)

lemma foldl_step_inv: "sys_inv s \<Longrightarrow> sys_inv (foldl (step env) s acts)"
  by (induction acts arbitrary: s) (simp_all add: step_inv)

lemma run_inv: "sys_inv (run env acts)"
  unfolding run_def by (rule foldl_step_inv[OF sys_inv_initialize])

lemma run_heap_ok: "heap_ok (fst (run env acts))"
  using run_inv[of env acts] by (simp add: sys_inv_def)

lemma run_world_ok: "world_ok (fst (run env acts))"
  using run_inv[of env acts] sys_inv_world_ok[of "fst (run env acts)" "snd (run env acts)"] by simp

text \<open>
  Claim C3. After every history of submissions, task runs and cleanups (each task cleaned
  up at most once), \<open>tail_issue_task\<close> is null or the address of an issue command
  whose cleanup has not run. The issue cleanup changes nothing but the tail, and sets the
  tail to null exactly when the tail is the address of the task being cleaned up: the
  cleanup of an older issue task leaves a newer tail in place.
\<close>

theorem tail_issue_task_invariant:
  "tail_issue_task_ok (run env acts) \<and>
   iree_hal_task_queue_issue_cmd_cleanup task status w =
     w\<lparr>tail_issue_task := (if tail_issue_task w = Some task then None else tail_issue_task w)\<rparr>"
  using run_inv[of env acts]
  by (simp add: sys_inv_def iree_hal_task_queue_issue_cmd_cleanup_def)


theorem tail_issue_task_invariant_witness:
  "(let env = (\<lambda>h c. iree_ok_status);
        b = \<lparr>batch_wait_semaphores = \<lparr>count = 0, semaphores = [], payload_values = []\<rparr>,
             batch_signal_semaphores = \<lparr>count = 1, semaphores = [9], payload_values = [1]\<rparr>,
             batch_command_buffer_count = 1, batch_command_buffers = [4]\<rparr>;
        acts = [Submit 1 [b], Submit 1 [b], Cleanup_task 3 iree_ok_status]
    in tail_issue_task (fst (run env [Submit 1 [b], Submit 1 [b]])) = Some 7 \<and>
       tail_issue_task (fst (run env acts)) = Some 7 \<and>
       snd (run env acts) = {3} \<and>
       tail_issue_task_ok (run env acts) \<and>
       tail_issue_task (fst (run env (acts @ [Cleanup_task 7 iree_ok_status]))) = None)"
proof -
  let ?env = "\<lambda>(h::call list) (c::call). iree_ok_status"
  let ?b = "\<lparr>batch_wait_semaphores = \<lparr>count = 0, semaphores = [], payload_values = []\<rparr>,
             batch_signal_semaphores = \<lparr>count = 1, semaphores = [9], payload_values = [1]\<rparr>,
             batch_command_buffer_count = 1, batch_command_buffers = [4]\<rparr>"
  let ?acts = "[Submit 1 [?b], Submit 1 [?b], Cleanup_task 3 iree_ok_status]"
  note ev = run_def iree_hal_task_queue_submit_def iree_hal_task_queue_submit_loop.simps
    exec_defs iree_hal_task_queue_initialize_def cleanup_task_def
    iree_hal_task_queue_issue_cmd_cleanup_def iree_task_executor_flush_def
  have r: "tail_issue_task (fst (run ?env [Submit 1 [?b], Submit 1 [?b]])) = Some 7"
    "tail_issue_task (fst (run ?env ?acts)) = Some 7"
    "snd (run ?env ?acts) = {3}"
    "tail_issue_task (fst (run ?env (?acts @ [Cleanup_task 7 iree_ok_status]))) = None"
    by (simp_all add: ev)
  show ?thesis
    unfolding Let_def
    using tail_issue_task_invariant[of ?env ?acts 3 iree_ok_status "fst (run ?env [Submit 1 [?b], Submit 1 [?b]])"] r
    by simp
qed

subsection \<open>A submission that fails after the retire command was allocated\<close>

text \<open>
  A failing call makes no release at all, and once the retire command has been allocated
  the retains of the signal list stay in the log.
\<close>

lemma submit_batch_failure_no_release:
  assumes "fst (iree_hal_task_queue_submit_batch env b w) = Inl e"
  shows "release_count (calls (snd (iree_hal_task_queue_submit_batch env b w))) s =
         release_count (calls w) s"
proof (cases "iree_hal_task_queue_submit_batch env b w")
  case (Pair st w')
  then have st: "st = Inl e" using assms by simp
  from submit_batch_fail_calls[where env = env and b = b and w = w] Pair st
  obtain pre where pre: "calls w' = calls w @ pre" "list_all setup_call pre"
    by auto
  then show ?thesis using Pair by (simp add: release_count_def count_list_setup)
qed

lemma count_list_map_retain_idx [simp]:
  "count_list (map (\<lambda>j. Semaphore_retain (f j)) xs) (Semaphore_retain s) = count_list (map f xs) s"
  by (induction xs) auto

lemma submit_batch_failure_retains:
  "case iree_hal_task_queue_submit_batch env b w of
     (Inr _, w') \<Rightarrow> True
   | (Inl e, w') \<Rightarrow>
       (env (calls w @ [Arena_initialize (next_ref w)])
            (Arena_allocate (next_ref w) Sizeof_retire_cmd) = iree_ok_status \<and>
        env (calls w @ [Arena_initialize (next_ref w), Arena_allocate (next_ref w) Sizeof_retire_cmd])
            (Arena_allocate (next_ref w)
               (Sizeof_semaphore_list (count (batch_signal_semaphores b)))) = iree_ok_status
        \<longrightarrow> retain_count (calls w) s +
              count_list (map ((!) (semaphores (batch_signal_semaphores b)))
                            [0..<count (batch_signal_semaphores b)]) s
            \<le> retain_count (calls w') s)"
  by (simp add: exec_defs' retain_count_def split: sum.split prod.split option.split)

text \<open>
  Claim C1 does not hold on the code. The claim: when a submission fails after the retire
  command was allocated, every semaphore retained while cloning has been released again
  when the call returns. The code: the failure path deinitializes the arena and returns;
  the arena frees memory and releases no semaphore (the retire cleanup itself releases
  its list before it deinitializes the arena). Evaluated on a batch with one signal and
  one wait semaphore whose issue-command allocation fails: the call returns the error,
  its calls are the ones listed, semaphores 9 and 7 were each retained once and never
  released.
\<close>

theorem submit_batch_failure_leaks_retains:
  "(let env = (\<lambda>h c. if c = Arena_allocate 0 (Sizeof_issue_cmd 0) then Inl (Error 8)
                       else iree_ok_status);
        b = \<lparr>batch_wait_semaphores = \<lparr>count = 1, semaphores = [7], payload_values = [5]\<rparr>,
             batch_signal_semaphores = \<lparr>count = 1, semaphores = [9], payload_values = [1]\<rparr>,
             batch_command_buffer_count = 0, batch_command_buffers = []\<rparr>;
        r = iree_hal_task_queue_submit_batch env b iree_hal_task_queue_initialize
    in fst r = Inl (Error 8) \<and>
       calls (snd r) =
         [Arena_initialize 0, Arena_allocate 0 Sizeof_retire_cmd,
          Arena_allocate 0 (Sizeof_semaphore_list 1), Semaphore_retain 9,
          Executor_acquire_fence,
          Arena_allocate 0 Sizeof_wait_cmd, Arena_allocate 0 (Sizeof_semaphore_list 1),
          Semaphore_retain 7,
          Arena_allocate 0 (Sizeof_issue_cmd 0), Arena_deinitialize 0] \<and>
       retain_count (calls (snd r)) 9 = 1 \<and> release_count (calls (snd r)) 9 = 0 \<and>
       retain_count (calls (snd r)) 7 = 1 \<and> release_count (calls (snd r)) 7 = 0)"
  by (simp add: exec_defs iree_hal_task_queue_initialize_def retain_count_def release_count_def)

end
